theory Spec2Isabelle
  imports Complex_Main "HOL-Library.Log_Nat" "HOL-Library.Multiset"
begin

section \<open>JavaScript numbers\<close>

text \<open>
  A TypeScript \<open>number\<close> is an IEEE-754 binary64 value. The model keeps the finite
  values only and represents each by its exact rational value. Every arithmetic
  operation of the source (\<open>*\<close>, \<open>/\<close>, \<open>-\<close>) is the exact operation followed by
  \<open>fl\<close>, rounding to the nearest number with a 53-bit significand, ties to the even
  significand. The exponent range is not bounded: the amounts, prices and
  timestamps of the marketplace are far from the overflow and underflow
  thresholds of binary64. Comparisons are the comparisons of the rationals.
\<close>

type_synonym number = rat

definition binexp :: "rat \<Rightarrow> int" where
  \<comment> \<open>for \<open>0 < a\<close>: the exponent \<open>e\<close> with \<open>2 ^ e \<le> a < 2 ^ (e + 1)\<close>\<close>
  "binexp a = (case quotient_of a of (n, d) \<Rightarrow>
     (let e = bitlen n - bitlen d in if 2 powi e \<le> a then e else e - 1))"

definition round_half_even :: "rat \<Rightarrow> int" where
  "round_half_even r = (let f = \<lfloor>r\<rfloor>; d = r - of_int f in
     if d < 1 / 2 then f else if 1 / 2 < d then f + 1 else if even f then f else f + 1)"

definition fl :: "rat \<Rightarrow> number" where
  "fl q = (if q = 0 then 0 else
     (let a = \<bar>q\<bar>; s = 52 - binexp a in
      sgn q * of_int (round_half_even (a * 2 powi s)) / 2 powi s))"

definition mulN :: "number \<Rightarrow> number \<Rightarrow> number" where
  "mulN a b = fl (a * b)"

definition divN :: "number \<Rightarrow> number \<Rightarrow> number" where
  "divN a b = fl (a / b)"

definition subN :: "number \<Rightarrow> number \<Rightarrow> number" where
  "subN a b = fl (a - b)"

subsection \<open>parseFloat\<close>

text \<open>
  \<open>parseFloat\<close> skips leading white space (here the ASCII white space
  characters), reads the longest prefix that is a decimal literal (sign, digits,
  fraction, exponent), ignores the rest and returns the number nearest to the
  value of the literal. The result \<open>None\<close> stands for \<open>NaN\<close>. The literal
  \<open>Infinity\<close> is not modelled: the strings parsed in this program come from
  \<open>type="number"\<close> input fields, which hold the empty string or a finite decimal
  literal.
\<close>

definition is_digit :: "char \<Rightarrow> bool" where
  "is_digit c = (48 \<le> (of_char c :: nat) \<and> (of_char c :: nat) \<le> 57)"

definition is_space :: "char \<Rightarrow> bool" where
  "is_space c = ((of_char c :: nat) = 32 \<or> (9 \<le> (of_char c :: nat) \<and> (of_char c :: nat) \<le> 13))"

definition digits_val :: "string \<Rightarrow> int" where
  "digits_val ds = foldl (\<lambda>a c. 10 * a + ((of_char c :: int) - 48)) 0 ds"

definition split_sign :: "string \<Rightarrow> bool \<times> string" where
  "split_sign s = (case s of
       [] \<Rightarrow> (False, s)
     | c # r \<Rightarrow> if c = CHR ''-'' then (True, r) else if c = CHR ''+'' then (False, r) else (False, s))"

definition exponent_part :: "string \<Rightarrow> int" where
  "exponent_part s = (case s of
       [] \<Rightarrow> 0
     | c # r \<Rightarrow>
         if c = CHR ''e'' \<or> c = CHR ''E'' then
           (case split_sign r of (neg, r') \<Rightarrow>
              (let ds = takeWhile is_digit r' in
               if ds = [] then 0
               else if neg then - digits_val ds else digits_val ds))
         else 0)"

definition parseFloat :: "string \<Rightarrow> number option" where
  "parseFloat s =
     (case split_sign (dropWhile is_space s) of (neg, s2) \<Rightarrow>
        (let ip = takeWhile is_digit s2;
             s3 = dropWhile is_digit s2;
             fp = (case s3 of [] \<Rightarrow> [] | c # r \<Rightarrow> if c = CHR ''.'' then takeWhile is_digit r else []);
             s4 = (case s3 of [] \<Rightarrow> [] | c # r \<Rightarrow> if c = CHR ''.'' then dropWhile is_digit r else s3)
         in if ip = [] \<and> fp = [] then None
            else
              (let mant = of_int (digits_val (ip @ fp)) / 10 ^ length fp;
                   v = mant * 10 powi exponent_part s4
               in Some (fl (if neg then - v else v)))))"

section \<open>Ledger gateway, wallet agent and observable effects\<close>

text \<open>
  The thrown value of a failed call is \<open>Error\<close>. A transaction payload is the
  object handed to \<open>signAndSubmitTransaction\<close>. An argument is a string literal,
  the string \<open>v.toString()\<close> of a number \<open>v\<close> (\<open>NumStr v\<close>; the decimal digits of
  \<open>v\<close> when \<open>v\<close> is an integer below \<open>10 ^ 21\<close>), or a number passed as it is
  (\<open>Raw v\<close>).
\<close>

datatype error = Error string

datatype arg = Str string | NumStr number | Raw number

record payload =
  ptype :: string
  func :: string
  type_arguments :: "string list"
  arguments :: "arg list"

datatype effect =
    SignAndSubmit payload
  | WaitForTransaction string
  | View string "arg list"
  | GetAccountResource string string
  | MessageError string
  | MessageSuccess string
  | MessageWarning string
  | ConsoleError string
  | ConsoleLog string

text \<open>
  Raw ledger values. A text field arrives as a hex string or as an array of
  bytes; the two decoders of the source,
  \<open>new TextDecoder().decode(new Uint8Array(x))\<close> and
  \<open>new TextDecoder().decode(hexToUint8Array(x.slice(2)))\<close>, are parameters of the
  environment, as are the answers of the ledger and of the wallet and the clock.
\<close>

datatype raw_text = Hex string | Bytes "nat list"

record raw_nft_details =
  rn_name :: raw_text
  rn_description :: raw_text
  rn_uri :: raw_text
  rn_rarity :: number

record raw_auction =
  ra_id :: number
  ra_nft_id :: number
  ra_seller :: string
  ra_starting_price :: number
  ra_current_bid :: number
  ra_highest_bidder :: string
  ra_end_time :: number
  ra_nft_details :: raw_nft_details

datatype auctions_response = AuctionArray "raw_auction list" | NotAnArray

record raw_nft =
  rm_id :: number
  rm_owner :: string
  rm_name :: raw_text
  rm_description :: raw_text
  rm_uri :: raw_text
  rm_price :: number
  rm_for_sale :: bool
  rm_rarity :: number
  rm_listed_at :: "number option"

datatype ids_response = Nested "number list" | Flat "number list"

record raw_details =
  rd_id :: number
  rd_owner :: string
  rd_name :: raw_text
  rd_description :: raw_text
  rd_uri :: raw_text
  rd_price :: number
  rd_for_sale :: bool
  rd_rarity :: number

record raw_minted =
  rl_id :: number
  rl_name :: raw_text
  rl_description :: raw_text
  rl_uri :: raw_text
  rl_rarity :: number

record env =
  signAndSubmitTransaction :: "payload \<Rightarrow> error + string"
  waitForTransaction :: "string \<Rightarrow> error + unit"
  get_all_auctions :: "error + auctions_response"
  getAccountResource :: "string \<Rightarrow> string \<Rightarrow> error + raw_nft list"
  get_all_nfts_for_owner :: "arg list \<Rightarrow> error + ids_response"
  get_nft_details :: "arg list \<Rightarrow> error + raw_details"
  get_last_minted_nft :: "arg list \<Rightarrow> error + raw_minted"
  decodeBytes :: "raw_text \<Rightarrow> string"
  decodeHex :: "raw_text \<Rightarrow> string"
  dateNow :: number

definition slice :: "int \<Rightarrow> int \<Rightarrow> 'a list \<Rightarrow> 'a list" where
  \<comment> \<open>\<open>Array.prototype.slice(start, end)\<close> on integer arguments\<close>
  "slice start end xs =
     (let n = int (length xs);
          k = (if start < 0 then max (n + start) 0 else min start n);
          f = (if end < 0 then max (n + end) 0 else min end n)
      in take (nat (f - k)) (drop (nat k) xs))"

definition pageSize :: int where
  "pageSize = 8"

section \<open>AuctionView\<close>

record nft_details =
  nd_name :: string
  nd_description :: string
  nd_uri :: string
  nd_rarity :: number

record auction =
  a_id :: number
  nftId :: number
  seller :: string
  startingPrice :: number
  currentBid :: number
  highestBidder :: string
  endTime :: number
  nftDetails :: nft_details

text \<open>
  The field \<open>id\<close> of an auction is \<open>a_id\<close> here, and the fields of its
  \<open>nftDetails\<close> carry the prefix \<open>nd_\<close>.

  The state of the component: its props (\<open>marketplaceAddr\<close>), the connected
  account of \<open>useWallet\<close> (its address, \<open>None\<close> when no wallet is connected) and
  its \<open>useState\<close> cells. Fields carry the prefix \<open>av_\<close>.
\<close>

record auction_view =
  av_marketplaceAddr :: string
  av_account :: "string option"
  av_auctions :: "auction list"
  av_isLoading :: bool
  av_currentPage :: int
  av_selectedAuction :: "auction option"
  av_bidAmount :: string
  av_isBidModalVisible :: bool

definition decodeAuction :: "env \<Rightarrow> raw_auction \<Rightarrow> auction" where
  "decodeAuction e r =
     \<lparr> a_id = ra_id r,
       nftId = ra_nft_id r,
       seller = ra_seller r,
       startingPrice = divN (ra_starting_price r) 100000000,
       currentBid = divN (ra_current_bid r) 100000000,
       highestBidder = ra_highest_bidder r,
       endTime = ra_end_time r,
       nftDetails =
         \<lparr> nd_name = decodeBytes e (rn_name (ra_nft_details r)),
           nd_description = decodeBytes e (rn_description (ra_nft_details r)),
           nd_uri = decodeBytes e (rn_uri (ra_nft_details r)),
           nd_rarity = rn_rarity (ra_nft_details r) \<rparr> \<rparr>"

definition fetchAuctions :: "env \<Rightarrow> auction_view \<Rightarrow> auction_view \<times> effect list" where
  "fetchAuctions e s =
     (let s1 = s\<lparr>av_isLoading := True\<rparr>;
          call = View (av_marketplaceAddr s @ ''::NFTMarketplace::get_all_auctions'') []
      in case get_all_auctions e of
           Inl err \<Rightarrow>
             (s1\<lparr>av_isLoading := False\<rparr>,
              [call, ConsoleError ''Error fetching auctions:'', MessageError ''Failed to fetch auctions.''])
         | Inr NotAnArray \<Rightarrow> (s1\<lparr>av_isLoading := False\<rparr>, [call])
         | Inr (AuctionArray raws) \<Rightarrow>
             (s1\<lparr>av_auctions := map (decodeAuction e) raws, av_isLoading := False\<rparr>, [call]))"

definition handleBidClick :: "auction \<Rightarrow> auction_view \<Rightarrow> auction_view \<times> effect list" where
  "handleBidClick a s =
     (case av_account s of
        None \<Rightarrow> (s, [MessageWarning ''Please connect your wallet to place a bid''])
      | Some acc \<Rightarrow> (s\<lparr>av_selectedAuction := Some a, av_isBidModalVisible := True\<rparr>, []))"

definition handleBidCancel :: "auction_view \<Rightarrow> auction_view" where
  "handleBidCancel s = s\<lparr>av_isBidModalVisible := False, av_selectedAuction := None, av_bidAmount := ''''\<rparr>"

definition setBidAmount :: "string \<Rightarrow> auction_view \<Rightarrow> auction_view" where
  "setBidAmount v s = s\<lparr>av_bidAmount := v\<rparr>"

definition toOctas :: "string \<Rightarrow> arg" where
  \<comment> \<open>\<open>(parseFloat(x) * 100000000).toString()\<close>\<close>
  "toOctas x = (case parseFloat x of None \<Rightarrow> Str ''NaN'' | Some v \<Rightarrow> NumStr (mulN v 100000000))"

definition bidPayload :: "auction_view \<Rightarrow> auction \<Rightarrow> payload" where
  "bidPayload s a =
     \<lparr> ptype = ''entry_function_payload'',
       func = av_marketplaceAddr s @ ''::NFTMarketplace::place_bid'',
       type_arguments = [],
       arguments = [Str (av_marketplaceAddr s), NumStr (a_id a), toOctas (av_bidAmount s)] \<rparr>"

definition handleBidSubmit :: "env \<Rightarrow> auction_view \<Rightarrow> auction_view \<times> effect list" where
  "handleBidSubmit e s =
     (case av_selectedAuction s of
        None \<Rightarrow> (s, [])
      | Some a \<Rightarrow>
          if av_bidAmount s = '''' \<or> av_account s = None then (s, [])
          else
            (let p = bidPayload s a;
                 failed = [ConsoleError ''Error placing bid:'', MessageError ''Failed to place bid. Please try again.'']
             in case signAndSubmitTransaction e p of
                  Inl err \<Rightarrow> (s, SignAndSubmit p # failed)
                | Inr h \<Rightarrow>
                    (case waitForTransaction e h of
                       Inl err \<Rightarrow> (s, [SignAndSubmit p, WaitForTransaction h] @ failed)
                     | Inr u \<Rightarrow>
                         (let s1 = s\<lparr>av_isBidModalVisible := False, av_bidAmount := ''''\<rparr>;
                              r = fetchAuctions e s1
                          in (fst r,
                              [SignAndSubmit p, WaitForTransaction h, MessageSuccess ''Bid placed successfully!'']
                              @ snd r)))))"

definition paginatedAuctions :: "auction_view \<Rightarrow> auction list" where
  "paginatedAuctions s =
     slice ((av_currentPage s - 1) * pageSize) (av_currentPage s * pageSize) (av_auctions s)"

definition isAuctionEnded :: "number \<Rightarrow> number \<Rightarrow> bool" where
  \<comment> \<open>the first argument is the value of \<open>Date.now()\<close>\<close>
  "isAuctionEnded now t = (mulN t 1000 < now)"

text \<open>
  The buttons a card shows for an auction when it is rendered at clock value
  \<open>now\<close>, and the footer button of the bid modal. A click reaches the handler only
  through a button that is rendered and not disabled.
\<close>

datatype button = PlaceBid bool | AuctionEndedDisabled

definition cardButtons :: "number \<Rightarrow> auction_view \<Rightarrow> auction \<Rightarrow> button list" where
  "cardButtons now s a =
     (if \<not> isAuctionEnded now (endTime a)
      then [PlaceBid (case av_account s of None \<Rightarrow> False | Some addr \<Rightarrow> addr = seller a)]
      else [])
     @ (if isAuctionEnded now (endTime a) then [AuctionEndedDisabled] else [])"

definition clickPlaceBid :: "number \<Rightarrow> auction \<Rightarrow> auction_view \<Rightarrow> auction_view \<times> effect list" where
  "clickPlaceBid now a s =
     (if \<not> av_isLoading s \<and> a \<in> set (paginatedAuctions s) \<and> PlaceBid False \<in> set (cardButtons now s a)
      then handleBidClick a s
      else (s, []))"

definition bidSubmitDisabled :: "auction_view \<Rightarrow> bool" where
  "bidSubmitDisabled s =
     (av_bidAmount s = '''' \<or>
      (case av_selectedAuction s of
         None \<Rightarrow> False
       | Some a \<Rightarrow> (case parseFloat (av_bidAmount s) of None \<Rightarrow> False | Some v \<Rightarrow> v \<le> currentBid a)))"

definition clickBidSubmit :: "env \<Rightarrow> auction_view \<Rightarrow> auction_view \<times> effect list" where
  "clickBidSubmit e s =
     (if av_isBidModalVisible s \<and> \<not> bidSubmitDisabled s then handleBidSubmit e s else (s, []))"

section \<open>MarketView\<close>

record nft =
  nft_id :: number
  owner :: string
  name :: string
  description :: string
  uri :: string
  price :: number
  for_sale :: bool
  rarity :: number
  listed_at :: number

datatype rarity_filter = AllRarities | Rarity number

text \<open>
  The field \<open>id\<close> of an NFT is \<open>nft_id\<close> here. The state of the component has
  its fields prefixed \<open>mv_\<close>. A \<open>moment\<close> of the date range is represented by its
  timestamp in milliseconds. The date range is the pair the component starts with
  and the picker fills; the value \<open>null\<close> that the picker hands over when it is
  cleared, at which \<open>applyFilters\<close> throws on reading \<open>dateRange[0]\<close>, is not among
  the values of \<open>mv_dateRange\<close>.
\<close>

record market_view =
  mv_marketplaceAddr :: string
  mv_nfts :: "nft list"
  mv_filteredNfts :: "nft list"
  mv_rarity :: rarity_filter
  mv_currentPage :: int
  mv_isBuyModalVisible :: bool
  mv_selectedNft :: "nft option"
  mv_isLoading :: bool
  mv_priceRange :: "number \<times> number"
  mv_dateRange :: "number option \<times> number option"
  mv_sortBy :: string
  mv_searchTerm :: string

text \<open>
  The records of the ledger are typed: a resource that is read but has no list
  \<open>nfts\<close>, or a record whose \<open>name\<close> is not a string, at which the decoding throws
  inside \<open>try\<close> and \<open>fetchNfts\<close> takes its \<open>catch\<close> branch, is not among the values
  of \<open>raw_nft list\<close>.
\<close>

definition decodeNft :: "env \<Rightarrow> raw_nft \<Rightarrow> nft" where
  "decodeNft e r =
     \<lparr> nft_id = rm_id r,
       owner = rm_owner r,
       name = decodeHex e (rm_name r),
       description = decodeHex e (rm_description r),
       uri = decodeHex e (rm_uri r),
       price = divN (rm_price r) 100000000,
       for_sale = rm_for_sale r,
       rarity = rm_rarity r,
       listed_at = (case rm_listed_at r of
                      None \<Rightarrow> dateNow e
                    | Some t \<Rightarrow> if t = 0 then dateNow e else t) \<rparr>"

definition fetchNfts :: "env \<Rightarrow> market_view \<Rightarrow> market_view \<times> effect list" where
  "fetchNfts e s =
     (let s1 = s\<lparr>mv_isLoading := True\<rparr>;
          res = mv_marketplaceAddr s @ ''::NFTMarketplace::Marketplace'';
          call = GetAccountResource (mv_marketplaceAddr s) res
      in case getAccountResource e (mv_marketplaceAddr s) res of
           Inl err \<Rightarrow>
             (s1\<lparr>mv_isLoading := False\<rparr>,
              [call, ConsoleError ''Error fetching NFTs:'', MessageError ''Failed to fetch NFTs.''])
         | Inr nftList \<Rightarrow>
             (let decodedNfts = map (decodeNft e) nftList
              in (s1\<lparr>mv_nfts := decodedNfts, mv_filteredNfts := decodedNfts, mv_isLoading := False\<rparr>,
                  [call])))"



subsection \<open>The query transformation\<close>

text \<open>
  \<open>Array.prototype.sort\<close> with a comparator is a stable sort. For a comparator
  that orders by one key every stable sort returns the same list, and insertion
  sort stands for it: an element is placed before the first element it does not
  compare greater than.
\<close>

fun insert_by :: "('a \<Rightarrow> 'a \<Rightarrow> number) \<Rightarrow> 'a \<Rightarrow> 'a list \<Rightarrow> 'a list" where
  "insert_by cmp x [] = [x]"
| "insert_by cmp x (y # ys) = (if cmp x y \<le> 0 then x # y # ys else y # insert_by cmp x ys)"

definition js_sort :: "('a \<Rightarrow> 'a \<Rightarrow> number) \<Rightarrow> 'a list \<Rightarrow> 'a list" where
  "js_sort cmp xs = foldr (insert_by cmp) xs []"

definition toLowerCase :: "string \<Rightarrow> string" where
  \<comment> \<open>on ASCII letters\<close>
  "toLowerCase s =
     map (\<lambda>c. if 65 \<le> (of_char c :: nat) \<and> (of_char c :: nat) \<le> 90 then char_of ((of_char c :: nat) + 32) else c) s"

fun starts_with :: "string \<Rightarrow> string \<Rightarrow> bool" where
  "starts_with s [] = True"
| "starts_with [] (c # t) = False"
| "starts_with (d # s) (c # t) = (d = c \<and> starts_with s t)"

fun includes_str :: "string \<Rightarrow> string \<Rightarrow> bool" where
  "includes_str [] t = (t = [])"
| "includes_str (d # s) t = (starts_with (d # s) t \<or> includes_str s t)"

definition sortNfts :: "string \<Rightarrow> nft list \<Rightarrow> nft list" where
  "sortNfts sortBy filtered =
     (if sortBy = ''price_asc'' then js_sort (\<lambda>a b. subN (price a) (price b)) filtered
      else if sortBy = ''price_desc'' then js_sort (\<lambda>a b. subN (price b) (price a)) filtered
      else if sortBy = ''date_asc'' then js_sort (\<lambda>a b. subN (listed_at a) (listed_at b)) filtered
      else if sortBy = ''date_desc'' then js_sort (\<lambda>a b. subN (listed_at b) (listed_at a)) filtered
      else if sortBy = ''rarity_asc'' then js_sort (\<lambda>a b. subN (rarity a) (rarity b)) filtered
      else if sortBy = ''rarity_desc'' then js_sort (\<lambda>a b. subN (rarity b) (rarity a)) filtered
      else filtered)"

definition moment :: "number \<Rightarrow> number option" where
  \<comment> \<open>the timestamp of \<open>moment(x)\<close>, the time value of \<open>new Date(x)\<close>: \<open>x\<close> cut to whole
      milliseconds, none (an invalid date) beyond 8.64e15\<close>
  "moment x = (if \<bar>x\<bar> > 8640000000000000 then None
               else Some (of_int (if 0 \<le> x then \<lfloor>x\<rfloor> else \<lceil>x\<rceil>)))"

definition isBetween :: "number option \<Rightarrow> number \<Rightarrow> number \<Rightarrow> bool" where
  \<comment> \<open>\<open>listedDate.isBetween(from, to, null, '[]')\<close>, both ends included; false on an
      invalid date\<close>
  "isBetween listedDate d0 d1 =
     (case listedDate of None \<Rightarrow> False | Some t \<Rightarrow> d0 \<le> t \<and> t \<le> d1)"

definition filterNfts :: "market_view \<Rightarrow> nft list" where
  "filterNfts s =
     (let f1 = (case mv_rarity s of
                  AllRarities \<Rightarrow> mv_nfts s
                | Rarity r \<Rightarrow> filter (\<lambda>n. rarity n = r) (mv_nfts s));
          f2 = filter (\<lambda>n. fst (mv_priceRange s) \<le> price n \<and> price n \<le> snd (mv_priceRange s)) f1;
          f3 = (case mv_dateRange s of
                  (Some d0, Some d1) \<Rightarrow> filter (\<lambda>n. isBetween (moment (listed_at n)) d0 d1) f2
                | _ \<Rightarrow> f2);
          f4 = (if mv_searchTerm s \<noteq> ''''
                then (let lowercaseTerm = toLowerCase (mv_searchTerm s)
                      in filter (\<lambda>n. includes_str (toLowerCase (name n)) lowercaseTerm
                                      \<or> includes_str (toLowerCase (description n)) lowercaseTerm) f3)
                else f3)
      in f4)"

definition applyFilters :: "market_view \<Rightarrow> market_view" where
  "applyFilters s =
     s\<lparr>mv_filteredNfts := sortNfts (mv_sortBy s) (filterNfts s), mv_currentPage := 1\<rparr>"

definition paginatedNfts :: "market_view \<Rightarrow> nft list" where
  "paginatedNfts s =
     slice ((mv_currentPage s - 1) * pageSize) (mv_currentPage s * pageSize) (mv_filteredNfts s)"

definition paginationTotal :: "market_view \<Rightarrow> nat" where
  \<comment> \<open>the \<open>total\<close> handed to the pagination control\<close>
  "paginationTotal s = length (mv_filteredNfts s)"

section \<open>MyNFTs\<close>

record my_nft =
  mn_id :: number
  mn_name :: string
  mn_description :: string
  mn_uri :: string
  mn_rarity :: number
  mn_price :: number
  mn_for_sale :: bool

text \<open>
  The NFT type of this component has its fields prefixed \<open>mn_\<close>, the state of the
  component \<open>my_\<close>. The end time of the auction form is the \<open>unix()\<close> value of the
  chosen \<open>moment\<close>. The effects of the detail reads, which run concurrently, are
  listed with the requests first, in the order of the ids, then the failures.
\<close>

record my_nfts_view =
  my_account :: "string option"
  my_currentPage :: int
  my_nfts :: "my_nft list"
  my_totalNFTs :: nat
  my_isModalVisible :: bool
  my_selectedNft :: "my_nft option"
  my_salePrice :: string
  my_isAuctionModalVisible :: bool
  my_auctionStartingPrice :: string
  my_auctionEndTime :: "number option"
  my_isLoading :: bool

definition marketplaceAddr :: string where
  "marketplaceAddr = ''0x75cfca25296896f907a457e20a245f9af304cb1e48723d864e17f2e08ad93159''"

definition nftIds_of :: "ids_response \<Rightarrow> number list" where
  \<comment> \<open>\<open>Array.isArray(response[0]) ? response[0] : response\<close>\<close>
  "nftIds_of r = (case r of Nested ids \<Rightarrow> ids | Flat ids \<Rightarrow> ids)"

definition ownerIdsArgs :: "string \<Rightarrow> string \<Rightarrow> arg list" where
  "ownerIdsArgs addr acc = [Str addr, Str acc, Str ''100'', Str ''0'']"

definition decodeMyNft :: "env \<Rightarrow> raw_details \<Rightarrow> my_nft" where
  "decodeMyNft e d =
     \<lparr> mn_id = rd_id d,
       mn_name = decodeHex e (rd_name d),
       mn_description = decodeHex e (rd_description d),
       mn_uri = decodeHex e (rd_uri d),
       mn_rarity = rd_rarity d,
       mn_price = divN (rd_price d) 100000000,
       mn_for_sale = rd_for_sale d \<rparr>"

definition fetchUserNFTs :: "env \<Rightarrow> my_nfts_view \<Rightarrow> my_nfts_view \<times> effect list" where
  "fetchUserNFTs e s =
     (case my_account s of
        None \<Rightarrow> (s, [])
      | Some acc \<Rightarrow>
          (let s1 = s\<lparr>my_isLoading := True\<rparr>;
               idsArgs = ownerIdsArgs marketplaceAddr acc;
               pre = [ConsoleLog ''Fetching NFT IDs for owner:'',
                      View (marketplaceAddr @ ''::NFTMarketplace::get_all_nfts_for_owner'') idsArgs]
           in case get_all_nfts_for_owner e idsArgs of
                Inl err \<Rightarrow>
                  (s1\<lparr>my_isLoading := False\<rparr>,
                   pre @ [ConsoleError ''Error fetching NFTs:'', MessageError ''Failed to fetch your NFTs.''])
              | Inr resp \<Rightarrow>
                  (let nftIds = nftIds_of resp;
                       s2 = s1\<lparr>my_totalNFTs := length nftIds\<rparr>
                   in if nftIds = []
                      then (s2\<lparr>my_nfts := [], my_isLoading := False\<rparr>,
                            pre @ [ConsoleLog ''No NFTs found for the owner.''])
                      else
                        (let detailArgs = (\<lambda>i. [Str marketplaceAddr, Raw i]);
                             calls = map (\<lambda>i. View (marketplaceAddr @ ''::NFTMarketplace::get_nft_details'')
                                                  (detailArgs i)) nftIds;
                             results = map (\<lambda>i. get_nft_details e (detailArgs i)) nftIds;
                             errors = concat (map (\<lambda>r. case r of
                                                          Inl err \<Rightarrow> [ConsoleError ''Error fetching details for NFT ID'']
                                                        | Inr d \<Rightarrow> []) results);
                             userNFTs = concat (map (\<lambda>r. case r of
                                                            Inl err \<Rightarrow> []
                                                          | Inr d \<Rightarrow> [decodeMyNft e d]) results)
                         in (s2\<lparr>my_nfts := userNFTs, my_isLoading := False\<rparr>,
                             pre @ [ConsoleLog ''Fetching details for each NFT ID:''] @ calls @ errors
                             @ [ConsoleLog ''User NFTs:''])))))"






section \<open>NFTFusion\<close>

record fusion_nft =
  fn_id :: number
  fn_name :: string
  fn_description :: string
  fn_uri :: string
  fn_rarity :: number

text \<open>
  The NFT type of this component has its fields prefixed \<open>fn_\<close>, the state of the
  component \<open>fu_\<close>.
\<close>

record fusion_view =
  fu_marketplaceAddr :: string
  fu_account :: "string option"
  fu_userNFTs :: "fusion_nft list"
  fu_selectedNFTs :: "fusion_nft list"
  fu_isLoading :: bool
  fu_isFusing :: bool
  fu_fusionResult :: "fusion_nft option"

definition decodeFusionNft :: "env \<Rightarrow> raw_details \<Rightarrow> fusion_nft" where
  "decodeFusionNft e d =
     \<lparr> fn_id = rd_id d,
       fn_name = decodeBytes e (rd_name d),
       fn_description = decodeBytes e (rd_description d),
       fn_uri = decodeBytes e (rd_uri d),
       fn_rarity = rd_rarity d \<rparr>"

fun promiseAll :: "(error + 'a) list \<Rightarrow> error + 'a list" where
  \<comment> \<open>\<open>Promise.all\<close>: every result, or a rejection when one of them is rejected\<close>
  "promiseAll [] = Inr []"
| "promiseAll (Inl err # rs) = Inl err"
| "promiseAll (Inr x # rs) = (case promiseAll rs of Inl err \<Rightarrow> Inl err | Inr xs \<Rightarrow> Inr (x # xs))"

definition fetchUserNFTs_fusion :: "env \<Rightarrow> fusion_view \<Rightarrow> fusion_view \<times> effect list" where
  "fetchUserNFTs_fusion e s =
     (case fu_account s of
        None \<Rightarrow> (s, [])
      | Some acc \<Rightarrow>
          (let s1 = s\<lparr>fu_isLoading := True\<rparr>;
               idsArgs = ownerIdsArgs (fu_marketplaceAddr s) acc;
               call = View (fu_marketplaceAddr s @ ''::NFTMarketplace::get_all_nfts_for_owner'') idsArgs;
               failed = [ConsoleError ''Error fetching user NFTs:'', MessageError ''Failed to fetch your NFTs.'']
           in case get_all_nfts_for_owner e idsArgs of
                Inl err \<Rightarrow> (s1\<lparr>fu_isLoading := False\<rparr>, call # failed)
              | Inr resp \<Rightarrow>
                  (let nftIds = nftIds_of resp;
                       detailArgs = (\<lambda>i. [Str (fu_marketplaceAddr s), Raw i]);
                       calls = map (\<lambda>i. View (fu_marketplaceAddr s @ ''::NFTMarketplace::get_nft_details'')
                                            (detailArgs i)) nftIds
                   in case promiseAll (map (\<lambda>i. get_nft_details e (detailArgs i)) nftIds) of
                        Inl err \<Rightarrow> (s1\<lparr>fu_isLoading := False\<rparr>, call # calls @ failed)
                      | Inr ds \<Rightarrow>
                          (s1\<lparr>fu_userNFTs := map (decodeFusionNft e) ds, fu_isLoading := False\<rparr>,
                           call # calls))))"

definition handleNFTSelect :: "fusion_nft \<Rightarrow> fusion_view \<Rightarrow> fusion_view \<times> effect list" where
  "handleNFTSelect n s =
     (if list_ex (\<lambda>selected. fn_id selected = fn_id n) (fu_selectedNFTs s)
      then (s\<lparr>fu_selectedNFTs := filter (\<lambda>selected. fn_id selected \<noteq> fn_id n) (fu_selectedNFTs s)\<rparr>, [])
      else if length (fu_selectedNFTs s) < 2
      then (s\<lparr>fu_selectedNFTs := fu_selectedNFTs s @ [n]\<rparr>, [])
      else (s, [MessageWarning ''You can only select two NFTs for fusion.'']))"

definition fusionPayload :: "fusion_view \<Rightarrow> fusion_nft \<Rightarrow> fusion_nft \<Rightarrow> payload" where
  "fusionPayload s a b =
     \<lparr> ptype = ''entry_function_payload'',
       func = fu_marketplaceAddr s @ ''::NFTMarketplace::fuse_nfts'',
       type_arguments = [],
       arguments = [Str (fu_marketplaceAddr s), NumStr (fn_id a), NumStr (fn_id b)] \<rparr>"

definition decodeMinted :: "env \<Rightarrow> raw_minted \<Rightarrow> fusion_nft" where
  "decodeMinted e r =
     \<lparr> fn_id = rl_id r,
       fn_name = decodeBytes e (rl_name r),
       fn_description = decodeBytes e (rl_description r),
       fn_uri = decodeBytes e (rl_uri r),
       fn_rarity = rl_rarity r \<rparr>"

definition handleFusion :: "env \<Rightarrow> fusion_view \<Rightarrow> fusion_view \<times> effect list" where
  "handleFusion e s =
     (case fu_selectedNFTs s of
        [a, b] \<Rightarrow>
          (let p = fusionPayload s a b;
               failed = [ConsoleError ''Error during NFT fusion:'',
                         MessageError ''Failed to fuse NFTs. Please try again.'']
           in case signAndSubmitTransaction e p of
                Inl err \<Rightarrow> (s\<lparr>fu_isFusing := False\<rparr>, SignAndSubmit p # failed)
              | Inr h \<Rightarrow>
                  (case waitForTransaction e h of
                     Inl err \<Rightarrow> (s\<lparr>fu_isFusing := False\<rparr>, [SignAndSubmit p, WaitForTransaction h] @ failed)
                   | Inr u \<Rightarrow>
                       (case fu_account s of
                          None \<Rightarrow> (s\<lparr>fu_isFusing := False\<rparr>, [SignAndSubmit p, WaitForTransaction h] @ failed)
                        | Some acc \<Rightarrow>
                            (let mintedArgs = [Str (fu_marketplaceAddr s), Str acc];
                                 call = View (fu_marketplaceAddr s @ ''::NFTMarketplace::get_last_minted_nft'')
                                          mintedArgs
                             in case get_last_minted_nft e mintedArgs of
                                  Inl err \<Rightarrow>
                                    (s\<lparr>fu_isFusing := False\<rparr>,
                                     [SignAndSubmit p, WaitForTransaction h, call] @ failed)
                                | Inr m \<Rightarrow>
                                    (let r = fetchUserNFTs_fusion e
                                               (s\<lparr>fu_isFusing := True, fu_fusionResult := Some (decodeMinted e m)\<rparr>)
                                     in ((fst r)\<lparr>fu_isFusing := False\<rparr>,
                                         [SignAndSubmit p, WaitForTransaction h, call,
                                          MessageSuccess ''NFT Fusion successful!'']
                                         @ snd r))))))
      | _ \<Rightarrow> (s, [MessageError ''Please select exactly two NFTs for fusion.'']))"

definition fuseDisabled :: "fusion_view \<Rightarrow> bool" where
  "fuseDisabled s = (length (fu_selectedNFTs s) \<noteq> 2 \<or> fu_isFusing s)"

definition clickFuse :: "env \<Rightarrow> fusion_view \<Rightarrow> fusion_view \<times> effect list" where
  "clickFuse e s = (if fuseDisabled s then (s, []) else handleFusion e s)"

section \<open>Example environments and states\<close>

text \<open>
  \<open>ex_env\<close> is an environment in which the wallet signs, the ledger confirms and
  the reads succeed with empty answers; in \<open>ex_env_down\<close> every call fails.
\<close>

definition ex_env :: env where
  "ex_env =
     \<lparr> signAndSubmitTransaction = (\<lambda>p. Inr ''0xhash''),
       waitForTransaction = (\<lambda>h. Inr ()),
       get_all_auctions = Inr (AuctionArray []),
       getAccountResource = (\<lambda>a r. Inr []),
       get_all_nfts_for_owner = (\<lambda>args. Inr (Nested [])),
       get_nft_details = (\<lambda>args. Inl (Error ''not found'')),
       get_last_minted_nft = (\<lambda>args. Inl (Error ''not found'')),
       decodeBytes = (\<lambda>r. ''''),
       decodeHex = (\<lambda>r. ''''),
       dateNow = 0 \<rparr>"

definition ex_env_down :: env where
  "ex_env_down =
     \<lparr> signAndSubmitTransaction = (\<lambda>p. Inl (Error ''rejected'')),
       waitForTransaction = (\<lambda>h. Inl (Error ''network'')),
       get_all_auctions = Inl (Error ''network''),
       getAccountResource = (\<lambda>a r. Inl (Error ''network'')),
       get_all_nfts_for_owner = (\<lambda>args. Inl (Error ''network'')),
       get_nft_details = (\<lambda>args. Inl (Error ''network'')),
       get_last_minted_nft = (\<lambda>args. Inl (Error ''network'')),
       decodeBytes = (\<lambda>r. ''''),
       decodeHex = (\<lambda>r. ''''),
       dateNow = 0 \<rparr>"

definition ex_auction :: auction where
  "ex_auction =
     \<lparr> a_id = 1, nftId = 7, seller = ''0xseller'', startingPrice = 1, currentBid = 3,
       highestBidder = ''0xbob'', endTime = 2,
       nftDetails = \<lparr> nd_name = ''Fox'', nd_description = ''A fox'', nd_uri = ''ipfs://fox'', nd_rarity = 1 \<rparr> \<rparr>"

definition ex_auction_view :: auction_view where
  \<comment> \<open>the list is shown, no modal is open\<close>
  "ex_auction_view =
     \<lparr> av_marketplaceAddr = ''0xmarket'', av_account = Some ''0xalice'', av_auctions = [ex_auction],
       av_isLoading = False, av_currentPage = 1, av_selectedAuction = None, av_bidAmount = '''',
       av_isBidModalVisible = False \<rparr>"

definition ex_bid_modal :: auction_view where
  \<comment> \<open>the bid modal is open on \<open>ex_auction\<close> and holds the amount \<open>3.0\<close>\<close>
  "ex_bid_modal =
     ex_auction_view\<lparr>av_selectedAuction := Some ex_auction, av_bidAmount := ''3.0'',
                      av_isBidModalVisible := True\<rparr>"

definition ex_nft1 :: nft where
  "ex_nft1 =
     \<lparr> nft_id = 1, owner = ''0xseller'', name = ''Fox'', description = ''A fox'', uri = ''ipfs://fox'',
       price = 5, for_sale = True, rarity = 2, listed_at = 1700000000000 \<rparr>"

definition ex_nft2 :: nft where
  "ex_nft2 =
     \<lparr> nft_id = 2, owner = ''0xseller'', name = ''Owl'', description = ''An owl'', uri = ''ipfs://owl'',
       price = 3, for_sale = True, rarity = 1, listed_at = 1700000000000 \<rparr>"

definition ex_market_view :: market_view where
  \<comment> \<open>the initial filters of the component over a snapshot of two NFTs\<close>
  "ex_market_view =
     \<lparr> mv_marketplaceAddr = ''0xmarket'', mv_nfts = [ex_nft1, ex_nft2], mv_filteredNfts = [ex_nft1, ex_nft2],
       mv_rarity = AllRarities, mv_currentPage = 1, mv_isBuyModalVisible = False, mv_selectedNft = None,
       mv_isLoading = False, mv_priceRange = (0, 1000), mv_dateRange = (None, None),
       mv_sortBy = ''price_asc'', mv_searchTerm = '''' \<rparr>"

definition ex_my_nft :: my_nft where
  "ex_my_nft =
     \<lparr> mn_id = 5, mn_name = ''Fox'', mn_description = ''A fox'', mn_uri = ''ipfs://fox'', mn_rarity = 1,
       mn_price = 0, mn_for_sale = False \<rparr>"

definition ex_my_view :: my_nfts_view where
  "ex_my_view =
     \<lparr> my_account = Some ''0xalice'', my_currentPage = 1, my_nfts = [ex_my_nft], my_totalNFTs = 1,
       my_isModalVisible = False, my_selectedNft = None, my_salePrice = '''',
       my_isAuctionModalVisible = False, my_auctionStartingPrice = '''', my_auctionEndTime = None,
       my_isLoading = False \<rparr>"

definition ex_fnft5 :: fusion_nft where
  "ex_fnft5 = \<lparr> fn_id = 5, fn_name = ''Fox'', fn_description = ''A fox'', fn_uri = ''ipfs://fox'', fn_rarity = 1 \<rparr>"

definition ex_fnft6 :: fusion_nft where
  "ex_fnft6 = \<lparr> fn_id = 6, fn_name = ''Owl'', fn_description = ''An owl'', fn_uri = ''ipfs://owl'', fn_rarity = 2 \<rparr>"

definition ex_fnft7 :: fusion_nft where
  "ex_fnft7 = \<lparr> fn_id = 7, fn_name = ''Elk'', fn_description = ''An elk'', fn_uri = ''ipfs://elk'', fn_rarity = 1 \<rparr>"

definition ex_fusion_view :: fusion_view where
  "ex_fusion_view =
     \<lparr> fu_marketplaceAddr = ''0xmarket'', fu_account = Some ''0xalice'',
       fu_userNFTs = [ex_fnft5, ex_fnft6, ex_fnft7], fu_selectedNFTs = [],
       fu_isLoading = False, fu_isFusing = False, fu_fusionResult = None \<rparr>"

text \<open>The selection invariant of the fusion page.\<close>

definition selection_ok :: "fusion_nft list \<Rightarrow> bool" where
  "selection_ok sel = (length sel \<le> 2 \<and> distinct (map fn_id sel))"

text \<open>
  The read requests of a list of effects that call the view function \<open>fn\<close>, each
  by its arguments.
\<close>

fun view_args :: "string \<Rightarrow> effect \<Rightarrow> arg list list" where
  "view_args fn (View f args) = (if f = fn then [args] else [])"
| "view_args fn other = []"

definition views_of :: "string \<Rightarrow> effect list \<Rightarrow> arg list list" where
  "views_of fn effs = concat (map (view_args fn) effs)"

definition answers_at_most :: "env \<Rightarrow> arg list \<Rightarrow> nat \<Rightarrow> bool" where
  \<comment> \<open>the ledger answers the request for a page of ids with at most \<open>n\<close> ids\<close>
  "answers_at_most e args n =
     (case get_all_nfts_for_owner e args of Inl err \<Rightarrow> True | Inr resp \<Rightarrow> length (nftIds_of resp) \<le> n)"

text \<open>
  A ledger for the examples. The owner holds the NFTs 1 to 150; the view
  function \<open>get_all_nfts_for_owner\<close> answers the ids from the offset on, as many as
  the limit allows, and \<open>get_nft_details\<close> answers for every id.
\<close>

definition ex_owned :: "number list" where
  "ex_owned = map of_nat [1..<151]"

definition ex_env_paged :: env where
  "ex_env_paged =
     ex_env
       \<lparr> get_all_nfts_for_owner :=
           (\<lambda>args. case args of
                      [Str addr, Str acc, Str limit, Str offset] \<Rightarrow>
                        Inr (Nested (take (nat (digits_val limit)) (drop (nat (digits_val offset)) ex_owned)))
                    | _ \<Rightarrow> Inl (Error ''arguments'')),
         get_nft_details :=
           (\<lambda>args. case args of
                      [Str addr, Raw i] \<Rightarrow>
                        Inr \<lparr> rd_id = i, rd_owner = ''0xalice'', rd_name = Hex ''0x'', rd_description = Hex ''0x'',
                              rd_uri = Hex ''0x'', rd_price = 0, rd_for_sale = False, rd_rarity = 1 \<rparr>
                    | _ \<Rightarrow> Inl (Error ''arguments'')) \<rparr>"

text \<open>
  The same ledger with a view function \<open>get_all_nfts_for_owner\<close> that answers all
  the ids of the owner, whatever limit it is sent.
\<close>

definition ex_env_unpaged :: env where
  "ex_env_unpaged = ex_env_paged\<lparr>get_all_nfts_for_owner := (\<lambda>args. Inr (Nested ex_owned))\<rparr>"

definition ex_nft3 :: nft where
  \<comment> \<open>the NFT with id 1 at the price of \<open>ex_nft2\<close>\<close>
  "ex_nft3 = ex_nft1\<lparr>price := 3\<rparr>"

text \<open>
  The key a value of \<open>sortBy\<close> orders by: the named field for an ascending order,
  its negation for a descending order, a constant for any other string.
\<close>

definition sortKey :: "string \<Rightarrow> nft \<Rightarrow> number" where
  "sortKey sortBy n =
     (if sortBy = ''price_asc'' then price n
      else if sortBy = ''price_desc'' then - price n
      else if sortBy = ''date_asc'' then listed_at n
      else if sortBy = ''date_desc'' then - listed_at n
      else if sortBy = ''rarity_asc'' then rarity n
      else if sortBy = ''rarity_desc'' then - rarity n
      else 0)"


text \<open>
  An environment in which the owner holds the NFTs 5 and 6, the details of NFT 5
  are served and the read of the details of NFT 6 fails.
\<close>

definition ex_my_nft6 :: my_nft where
  "ex_my_nft6 =
     \<lparr> mn_id = 6, mn_name = ''Owl'', mn_description = ''An owl'', mn_uri = ''ipfs://owl'', mn_rarity = 2,
       mn_price = 0, mn_for_sale = False \<rparr>"

definition ex_my_pair :: my_nfts_view where
  "ex_my_pair = ex_my_view\<lparr>my_nfts := [ex_my_nft, ex_my_nft6], my_totalNFTs := 2\<rparr>"

definition ex_env_partial :: env where
  "ex_env_partial =
     ex_env
       \<lparr> get_all_nfts_for_owner := (\<lambda>args. Inr (Nested [5, 6])),
         get_nft_details :=
           (\<lambda>args. if args = [Str marketplaceAddr, Raw 5]
                    then Inr \<lparr> rd_id = 5, rd_owner = ''0xalice'', rd_name = Hex ''Fox'',
                               rd_description = Hex ''A fox'', rd_uri = Hex ''ipfs://fox'', rd_price = 0,
                               rd_for_sale = False, rd_rarity = 1 \<rparr>
                    else Inl (Error ''network'')),
         decodeHex := (\<lambda>r. case r of Hex h \<Rightarrow> h | Bytes bs \<Rightarrow> '''') \<rparr>"

text \<open>The texts of the error messages shown by a list of effects.\<close>

fun message_error_text :: "effect \<Rightarrow> string list" where
  "message_error_text (MessageError m) = [m]"
| "message_error_text other = []"

definition error_messages :: "effect list \<Rightarrow> string list" where
  "error_messages effs = concat (map message_error_text effs)"

definition ex_raw_auction :: raw_auction where
  \<comment> \<open>a ledger record whose current bid is what a bid of 0.07 submits\<close>
  "ex_raw_auction =
     \<lparr> ra_id = 1, ra_nft_id = 7, ra_seller = ''0xseller'', ra_starting_price = 1000000,
       ra_current_bid = 7000000 + 1 / 2 ^ 30, ra_highest_bidder = ''0xalice'', ra_end_time = 2,
       ra_nft_details = \<lparr> rn_name = Bytes [70, 111, 120], rn_description = Bytes [], rn_uri = Bytes [],
                          rn_rarity = 1 \<rparr> \<rparr>"

section \<open>Rounding to a 53-bit significand\<close>

lemma p2_pos: "0 < (2::rat) powi e"
  by simp

lemma p2_add: "(2::rat) powi (a + b) = 2 powi a * 2 powi b"
  by (simp add: power_int_add)

lemma p2_diff: "(2::rat) powi (a - b) = 2 powi a / 2 powi b"
  by (simp add: power_int_diff)

lemma p2_mono: "a \<le> b \<Longrightarrow> (2::rat) powi a \<le> 2 powi b"
  by (simp add: power_int_increasing)

lemma p2_strict_mono: "a < b \<Longrightarrow> (2::rat) powi a < 2 powi b"
  by (simp add: power_int_strict_increasing)

lemma p2_less_cancel: "(2::rat) powi a < 2 powi b \<Longrightarrow> a < b"
  using p2_mono [of b a] by (cases "a < b") auto

lemma bitlen_rat_bounds:
  assumes "0 < n"
  shows "(2::rat) powi (bitlen n - 1) \<le> of_int n" and "of_int n < (2::rat) powi (bitlen n)"
proof -
  from bitlen_bounds [OF assms]
  have lo: "2 ^ nat (bitlen n - 1) \<le> n" and hi: "n < 2 ^ nat (bitlen n)" by simp_all
  have pos: "1 \<le> bitlen n"
    using assms bitlen_ge_iff_power [of 1 n] by simp
  have "(2::rat) powi (bitlen n - 1) = 2 ^ nat (bitlen n - 1)"
    using pos by (simp add: power_int_nonneg_exp)
  also have "\<dots> = of_int (2 ^ nat (bitlen n - 1))" by simp
  also have "\<dots> \<le> of_int n" using lo by (simp only: of_int_le_iff)
  finally show "(2::rat) powi (bitlen n - 1) \<le> of_int n" .
  have "(of_int n :: rat) < of_int (2 ^ nat (bitlen n))" using hi by (simp only: of_int_less_iff)
  also have "\<dots> = 2 ^ nat (bitlen n)" by simp
  also have "\<dots> = (2::rat) powi (bitlen n)"
    using pos by (simp add: power_int_nonneg_exp)
  finally show "of_int n < (2::rat) powi (bitlen n)" .
qed

lemma binexp_bounds:
  assumes "0 < a"
  shows "2 powi (binexp a) \<le> a" and "a < 2 powi (binexp a + 1)"
proof -
  obtain n d where q: "quotient_of a = (n, d)" by (cases "quotient_of a")
  then have d: "0 < d" and a: "a = of_int n / of_int d"
    using quotient_of_denom_pos quotient_of_div by blast+
  have n: "0 < n"
    using assms a d by (simp add: zero_less_divide_iff)
  let ?e = "bitlen n - bitlen d"
  have dpos: "(0::rat) < of_int d" using d by simp
  have up: "a < 2 powi (?e + 1)"
  proof -
    have "of_int n < (2::rat) powi (bitlen n)" by (rule bitlen_rat_bounds [OF n])
    moreover have "(2::rat) powi (bitlen d - 1) \<le> of_int d" by (rule bitlen_rat_bounds [OF d])
    ultimately have "of_int n * (2::rat) powi (bitlen d - 1) < 2 powi (bitlen n) * of_int d"
      using dpos n by (intro mult_less_le_imp_less) simp_all
    then have "of_int n / of_int d < (2::rat) powi (bitlen n) / 2 powi (bitlen d - 1)"
      using dpos by (simp add: field_simps)
    also have "\<dots> = 2 powi (?e + 1)"
      by (simp add: p2_diff [symmetric]) (simp add: algebra_simps)
    finally show ?thesis using a by simp
  qed
  have lo: "2 powi (?e - 1) < a"
  proof -
    have "(2::rat) powi (bitlen n - 1) \<le> of_int n" by (rule bitlen_rat_bounds [OF n])
    moreover have "of_int d < (2::rat) powi (bitlen d)" by (rule bitlen_rat_bounds [OF d])
    ultimately have "(2::rat) powi (bitlen n - 1) * of_int d < of_int n * 2 powi (bitlen d)"
      using dpos n by (intro mult_le_less_imp_less) simp_all
    then have "(2::rat) powi (bitlen n - 1) / 2 powi (bitlen d) < of_int n / of_int d"
      using dpos by (simp add: field_simps)
    moreover have "(2::rat) powi (bitlen n - 1) / 2 powi (bitlen d) = 2 powi (?e - 1)"
      by (simp add: p2_diff [symmetric]) (simp add: algebra_simps)
    ultimately show ?thesis using a by simp
  qed
  show "2 powi (binexp a) \<le> a"
    using lo q by (auto simp: binexp_def Let_def)
  show "a < 2 powi (binexp a + 1)"
    using up q by (auto simp: binexp_def Let_def not_le)
qed

lemma binexp_eqI:
  assumes "2 powi e \<le> a" and "a < 2 powi (e + 1)"
  shows "binexp a = e"
proof -
  have pos: "0 < a" using assms(1) p2_pos [of e] by linarith
  from binexp_bounds [OF pos] assms
  have "(2::rat) powi (binexp a) < 2 powi (e + 1)" and "(2::rat) powi e < 2 powi (binexp a + 1)"
    by linarith+
  then have "binexp a < e + 1" and "e < binexp a + 1"
    by (auto dest: p2_less_cancel)
  then show ?thesis by simp
qed

lemma round_half_even_error: "\<bar>of_int (round_half_even r) - r\<bar> \<le> 1 / 2"
proof -
  have "of_int \<lfloor>r\<rfloor> \<le> r" and "r < of_int \<lfloor>r\<rfloor> + 1" by linarith+
  then show ?thesis
    by (auto simp: round_half_even_def Let_def abs_le_iff)
qed

lemma round_half_even_eqI:
  assumes "\<bar>r - of_int m\<bar> < 1 / 2"
  shows "round_half_even r = m"
proof -
  from assms have lo: "of_int m - 1 / 2 < r" and hi: "r < of_int m + 1 / 2"
    by linarith+
  have fl: "\<lfloor>r\<rfloor> = m \<or> \<lfloor>r\<rfloor> = m - 1"
  proof -
    have "of_int (m - 1) \<le> r" using lo by simp
    then have "m - 1 \<le> \<lfloor>r\<rfloor>" by (rule le_floor_iff [THEN iffD2])
    moreover have "r < of_int (m + 1)" using hi by simp
    then have "\<lfloor>r\<rfloor> < m + 1" by (simp only: floor_less_iff)
    ultimately show ?thesis by linarith
  qed
  then show ?thesis
  proof
    assume f: "\<lfloor>r\<rfloor> = m"
    with hi have "r - of_int \<lfloor>r\<rfloor> < 1 / 2" by simp
    with f show ?thesis by (simp add: round_half_even_def Let_def)
  next
    assume f: "\<lfloor>r\<rfloor> = m - 1"
    with lo have "1 / 2 < r - of_int \<lfloor>r\<rfloor>" by simp
    with f show ?thesis by (simp add: round_half_even_def Let_def)
  qed
qed

lemma round_half_even_int [simp]: "round_half_even (of_int m) = m"
  by (rule round_half_even_eqI) simp

lemma round_half_even_ge:
  assumes "of_int k \<le> r"
  shows "k \<le> round_half_even r"
proof -
  from assms have "k \<le> \<lfloor>r\<rfloor>" by (rule le_floor_iff [THEN iffD2])
  moreover have "\<lfloor>r\<rfloor> \<le> round_half_even r"
    by (simp add: round_half_even_def Let_def)
  ultimately show ?thesis by linarith
qed

lemma round_half_even_le:
  assumes "r \<le> of_int k"
  shows "round_half_even r \<le> k"
proof (cases "r = of_int k")
  case True
  then show ?thesis by simp
next
  case False
  with assms have "r < of_int k" by simp
  then have "\<lfloor>r\<rfloor> < k" by (simp add: floor_less_iff)
  moreover have "round_half_even r \<le> \<lfloor>r\<rfloor> + 1"
    by (simp add: round_half_even_def Let_def)
  ultimately show ?thesis by linarith
qed


lemma fl_pos_eq:
  assumes "0 < a"
  shows "fl a = of_int (round_half_even (a * 2 powi (52 - binexp a))) * 2 powi (binexp a - 52)"
proof -
  have "(1::rat) / 2 powi (52 - binexp a) = 2 powi (binexp a - 52)"
    by (simp add: power_int_minus_divide [symmetric])
  then have "x / 2 powi (52 - binexp a) = x * 2 powi (binexp a - 52)" for x :: rat
    by (metis times_divide_eq_right mult.right_neutral)
  with assms show ?thesis
    by (simp add: fl_def Let_def)
qed

lemma fl_minus: "fl (- q) = - fl q"
  by (simp add: fl_def Let_def sgn_minus)

lemma fl_zero [simp]: "fl 0 = 0"
  by (simp add: fl_def)

lemma scaled_range:
  assumes "0 < a"
  shows "2 ^ 52 \<le> a * 2 powi (52 - binexp a)" and "a * 2 powi (52 - binexp a) < 2 ^ 53"
proof -
  let ?s = "52 - binexp a"
  have "2 powi (binexp a) * 2 powi ?s \<le> a * 2 powi ?s"
    using binexp_bounds(1) [OF assms] by (intro mult_right_mono) simp_all
  moreover have "(2::rat) powi (binexp a) * 2 powi ?s = 2 powi 52"
    by (simp add: p2_add [symmetric])
  ultimately show "2 ^ 52 \<le> a * 2 powi ?s" by simp
  have "a * 2 powi ?s < 2 powi (binexp a + 1) * 2 powi ?s"
    using binexp_bounds(2) [OF assms] by (intro mult_strict_right_mono) simp_all
  moreover have "(2::rat) powi (binexp a + 1) * 2 powi ?s = 2 powi 53"
    by (simp add: p2_add [symmetric])
  ultimately show "a * 2 powi ?s < 2 ^ 53" by simp
qed

lemma mantissa_range:
  assumes "0 < a"
  shows "2 ^ 52 \<le> round_half_even (a * 2 powi (52 - binexp a))"
    and "round_half_even (a * 2 powi (52 - binexp a)) \<le> 2 ^ 53"
proof -
  have "of_int (2 ^ 52) \<le> a * 2 powi (52 - binexp a)"
    using scaled_range(1) [OF assms] by simp
  then show "2 ^ 52 \<le> round_half_even (a * 2 powi (52 - binexp a))"
    by (rule round_half_even_ge)
  have "a * 2 powi (52 - binexp a) \<le> of_int (2 ^ 53)"
    using scaled_range(2) [OF assms] by simp
  then show "round_half_even (a * 2 powi (52 - binexp a)) \<le> 2 ^ 53"
    by (rule round_half_even_le)
qed

lemma fl_pos:
  assumes "0 < a"
  shows "0 < fl a"
proof -
  have "(0::int) < 2 ^ 52" by simp
  also have "\<dots> \<le> round_half_even (a * 2 powi (52 - binexp a))"
    by (rule mantissa_range(1) [OF assms])
  finally have "(0::rat) < of_int (round_half_even (a * 2 powi (52 - binexp a)))"
    by (simp only: of_int_0_less_iff)
  then show ?thesis
    by (simp add: fl_pos_eq [OF assms] zero_less_mult_iff)
qed

lemma fl_le_zero_iff: "fl q \<le> 0 \<longleftrightarrow> q \<le> 0"
proof (cases "0 < q")
  case True
  with fl_pos [OF True] show ?thesis by simp
next
  case False
  show ?thesis
  proof (cases "q = 0")
    case True
    then show ?thesis by simp
  next
    case nz: False
    with False have "0 < - q" by simp
    then have "0 < fl (- q)" by (rule fl_pos)
    with False show ?thesis by (simp add: fl_minus)
  qed
qed

lemma subN_le_zero_iff: "subN a b \<le> 0 \<longleftrightarrow> a \<le> b"
  by (simp add: subN_def fl_le_zero_iff)

lemma fl_eqI:
  assumes "0 < a" and "binexp a = e" and "\<bar>a * 2 powi (52 - e) - of_int m\<bar> < 1 / 2"
  shows "fl a = of_int m * 2 powi (e - 52)"
proof -
  have "round_half_even (a * 2 powi (52 - binexp a)) = m"
    using assms(2,3) by (intro round_half_even_eqI) simp
  with assms(2) show ?thesis
    by (simp add: fl_pos_eq [OF assms(1)])
qed

lemma fl_error:
  assumes "0 < a"
  shows "\<bar>fl a - a\<bar> \<le> 2 powi (binexp a - 53)"
proof -
  let ?e = "binexp a"
  let ?m = "round_half_even (a * 2 powi (52 - ?e))"
  have one: "(2::rat) powi (52 - ?e) * 2 powi (?e - 52) = 1"
    by (simp add: p2_add [symmetric])
  have "fl a - a = (of_int ?m - a * 2 powi (52 - ?e)) * 2 powi (?e - 52)"
    using one by (simp add: fl_pos_eq [OF assms] algebra_simps)
  then have "\<bar>fl a - a\<bar> = \<bar>of_int ?m - a * 2 powi (52 - ?e)\<bar> * 2 powi (?e - 52)"
    by (simp add: abs_mult)
  also have "\<dots> \<le> (1 / 2) * 2 powi (?e - 52)"
    using round_half_even_error [of "a * 2 powi (52 - ?e)"]
    by (intro mult_right_mono) simp_all
  also have "\<dots> = 2 powi (?e - 53)"
  proof -
    have "(2::rat) powi (?e - 52) = 2 powi (?e - 53) * 2 powi 1"
      by (simp only: p2_add [symmetric]) simp
    then show ?thesis by simp
  qed
  finally show ?thesis .
qed

lemma fl_exact:
  assumes "0 < m" and "m < 2 ^ 53"
  shows "fl (of_int m * 2 powi j) = of_int m * 2 powi j"
proof -
  let ?a = "of_int m * (2::rat) powi j"
  have pos: "0 < ?a" using assms(1) by (simp add: zero_less_mult_iff)
  let ?e = "binexp ?a"
  have "(2::rat) powi ?e \<le> ?a" by (rule binexp_bounds(1) [OF pos])
  also have "?a < 2 ^ 53 * 2 powi j"
  proof -
    have "(of_int m :: rat) < of_int (2 ^ 53)" using assms(2) by (simp only: of_int_less_iff)
    then show ?thesis by (intro mult_strict_right_mono) simp_all
  qed
  also have "(2::rat) ^ 53 * 2 powi j = 2 powi (53 + j)"
    by (simp add: p2_add)
  finally have "?e < 53 + j" by (rule p2_less_cancel)
  then have k: "0 \<le> j + 52 - ?e" by simp
  define k where "k = nat (j + 52 - ?e)"
  have scaled: "?a * 2 powi (52 - ?e) = of_int (m * 2 ^ k)"
  proof -
    have "?a * 2 powi (52 - ?e) = of_int m * (2 powi j * 2 powi (52 - ?e))" by simp
    also have "2 powi j * (2::rat) powi (52 - ?e) = 2 powi (j + 52 - ?e)"
      by (simp add: p2_add [symmetric] algebra_simps)
    also have "\<dots> = 2 ^ k"
      using k by (simp add: k_def power_int_nonneg_exp)
    finally show ?thesis by simp
  qed
  have "\<bar>?a * 2 powi (52 - ?e) - of_int (m * 2 ^ k)\<bar> < 1 / 2"
    by (simp only: scaled)
  then have "fl ?a = of_int (m * 2 ^ k) * 2 powi (?e - 52)"
    by (rule fl_eqI [OF pos refl])
  also have "\<dots> = of_int m * (2 ^ k * 2 powi (?e - 52))" by simp
  also have "(2::rat) ^ k * 2 powi (?e - 52) = 2 powi (j + 52 - ?e) * 2 powi (?e - 52)"
    using k by (simp add: k_def power_int_nonneg_exp)
  also have "\<dots> = 2 powi j"
    by (simp add: p2_add [symmetric])
  finally show ?thesis .
qed

lemma fl_idem: "fl (fl q) = fl q"
proof -
  have pos: "fl (fl a) = fl a" if a: "0 < a" for a
  proof -
    let ?m = "round_half_even (a * 2 powi (52 - binexp a))"
    have m: "2 ^ 52 \<le> ?m" "?m \<le> 2 ^ 53" by (rule mantissa_range [OF a])+
    show ?thesis
    proof (cases "?m = 2 ^ 53")
      case True
      have "(2::rat) powi 53 * 2 powi (binexp a - 52) = 2 powi (binexp a + 1)"
        by (simp only: p2_add [symmetric]) (simp add: add.commute)
      with True have "fl a = of_int 1 * 2 powi (binexp a + 1)"
        by (simp add: fl_pos_eq [OF a])
      moreover have "fl (of_int 1 * 2 powi (binexp a + 1)) = of_int 1 * 2 powi (binexp a + 1)"
        by (rule fl_exact) simp_all
      ultimately show ?thesis by simp
    next
      case False
      with m have "0 < ?m" "?m < 2 ^ 53" by simp_all
      then have "fl (of_int ?m * 2 powi (binexp a - 52)) = of_int ?m * 2 powi (binexp a - 52)"
        by (rule fl_exact)
      then show ?thesis by (simp add: fl_pos_eq [OF a])
    qed
  qed
  show ?thesis
  proof (cases "0 < q")
    case True
    then show ?thesis by (rule pos)
  next
    case False
    show ?thesis
    proof (cases "q = 0")
      case True
      then show ?thesis by simp
    next
      case nz: False
      with False have "0 < - q" by simp
      from pos [OF this] show ?thesis by (simp add: fl_minus)
    qed
  qed
qed


section \<open>Bid validation (AuctionView)\<close>

lemma parseFloat_3_0: "parseFloat ''3.0'' = Some 3"
  by code_simp

text \<open>
  Claim C1, as stated, at the bid \<open>3.0\<close> against \<open>currentBid = 3\<close>: the submit
  button of the modal is disabled and a click on it changes nothing and reports
  nothing, so no validation error is produced; and \<open>handleBidSubmit\<close> itself makes
  no comparison with the current bid: run on that state it hands the bid of
  300000000 minor units to the wallet and waits for the transaction.
\<close>

theorem bid_equal_to_current_counterexample:
  "parseFloat (av_bidAmount ex_bid_modal) = Some 3 \<and>
   currentBid ex_auction = 3 \<and>
   av_selectedAuction ex_bid_modal = Some ex_auction \<and>
   clickBidSubmit ex_env ex_bid_modal = (ex_bid_modal, []) \<and>
   snd (handleBidSubmit ex_env ex_bid_modal) =
       [SignAndSubmit \<lparr> ptype = ''entry_function_payload'',
                        func = ''0xmarket::NFTMarketplace::place_bid'',
                        type_arguments = [],
                        arguments = [Str ''0xmarket'', NumStr 1, NumStr 300000000] \<rparr>,
        WaitForTransaction ''0xhash'',
        MessageSuccess ''Bid placed successfully!'',
        View ''0xmarket::NFTMarketplace::get_all_auctions'' []]"
  by code_simp

text \<open>
  Claim C1, amended: when the amount entered in the bid modal parses to a number
  that is not strictly greater than the current bid of the selected auction, the
  submit button of the modal is disabled, so a click on it does not reach
  \<open>handleBidSubmit\<close>: nothing is handed to the wallet or sent to the network and
  the state is unchanged. No error is raised or shown.
\<close>

theorem low_bid_blocked_by_disabled_button:
  assumes "av_selectedAuction s = Some a"
    and "parseFloat (av_bidAmount s) = Some v"
    and "v \<le> currentBid a"
  shows "bidSubmitDisabled s \<and> clickBidSubmit e s = (s, [])"
  using assms by (simp add: bidSubmitDisabled_def clickBidSubmit_def)

theorem low_bid_blocked_by_disabled_button_witness:
  "av_selectedAuction ex_bid_modal = Some ex_auction \<and>
   parseFloat (av_bidAmount ex_bid_modal) = Some 3 \<and>
   (3::rat) \<le> currentBid ex_auction \<and>
   bidSubmitDisabled ex_bid_modal \<and>
   clickBidSubmit ex_env ex_bid_modal = (ex_bid_modal, [])"
proof -
  have a: "av_selectedAuction ex_bid_modal = Some ex_auction"
    by (simp add: ex_bid_modal_def)
  have b: "parseFloat (av_bidAmount ex_bid_modal) = Some 3"
    by (simp add: ex_bid_modal_def parseFloat_3_0)
  have c: "(3::rat) \<le> currentBid ex_auction"
    by (simp add: ex_auction_def)
  from low_bid_blocked_by_disabled_button [OF a b c, of ex_env] a b c show ?thesis
    by simp
qed

section \<open>Ended auctions (AuctionView)\<close>

lemma mulN_2_1000: "mulN 2 1000 = 2000"
  by code_simp

text \<open>
  Claim C5, as stated, on the auction \<open>ex_auction\<close> that ends at second 2. Its card
  rendered at clock value 1000 ms offers the bid button; the click opens the
  modal, the user enters 5. \<open>handleBidSubmit\<close> does not read the clock or the end
  time, so the click on the submit button hands the bid to the wallet whatever
  the time is, also at 3000 ms, when the auction has ended.
\<close>

theorem bid_after_end_counterexample:
  "\<not> isAuctionEnded 1000 (endTime ex_auction) \<and>
   isAuctionEnded 3000 (endTime ex_auction) \<and>
   fst (clickPlaceBid 1000 ex_auction ex_auction_view) =
     ex_auction_view\<lparr>av_selectedAuction := Some ex_auction, av_isBidModalVisible := True\<rparr> \<and>
   snd (clickBidSubmit ex_env (setBidAmount ''5'' (fst (clickPlaceBid 1000 ex_auction ex_auction_view)))) =
       [SignAndSubmit \<lparr> ptype = ''entry_function_payload'',
                        func = ''0xmarket::NFTMarketplace::place_bid'',
                        type_arguments = [],
                        arguments = [Str ''0xmarket'', NumStr 1, NumStr 500000000] \<rparr>,
        WaitForTransaction ''0xhash'',
        MessageSuccess ''Bid placed successfully!'',
        View ''0xmarket::NFTMarketplace::get_all_auctions'' []]"
  by code_simp

text \<open>
  Claim C5, amended: for an auction that has ended when its card is rendered
  (\<open>Date.now() > endTime * 1000\<close>), the card shows only the disabled button
  "Auction Ended"; no bid button is offered, so the bid modal cannot be opened
  for it from that rendering: the state is unchanged and nothing is sent.
\<close>

theorem ended_auction_offers_no_bid_button:
  assumes "isAuctionEnded now (endTime a)"
  shows "cardButtons now s a = [AuctionEndedDisabled] \<and> clickPlaceBid now a s = (s, [])"
  using assms by (simp add: cardButtons_def clickPlaceBid_def)

theorem ended_auction_offers_no_bid_button_witness:
  "isAuctionEnded 3000 (endTime ex_auction) \<and>
   cardButtons 3000 ex_auction_view ex_auction = [AuctionEndedDisabled] \<and>
   clickPlaceBid 3000 ex_auction ex_auction_view = (ex_auction_view, [])"
proof -
  have a: "isAuctionEnded 3000 (endTime ex_auction)"
    by (simp add: isAuctionEnded_def ex_auction_def mulN_2_1000)
  from ended_auction_offers_no_bid_button [OF a, of ex_auction_view] a show ?thesis
    by simp
qed

section \<open>Failed reads (all repositories)\<close>

lemma promiseAll_rejects:
  "Inl err \<in> set rs \<Longrightarrow> \<exists>err'. promiseAll rs = Inl err'"
proof (induction rs)
  case Nil
  then show ?case by simp
next
  case (Cons r rs)
  show ?case
  proof (cases r)
    case (Inl x)
    then show ?thesis by simp
  next
    case (Inr y)
    with Cons obtain err' where "promiseAll rs = Inl err'" by auto
    with Inr show ?thesis by simp
  qed
qed

lemma error_messages_append: "error_messages (xs @ ys) = error_messages xs @ error_messages ys"
  by (simp add: error_messages_def)

lemma error_messages_Cons: "error_messages (x # xs) = message_error_text x @ error_messages xs"
  by (simp add: error_messages_def)

lemma error_messages_Nil: "error_messages [] = []"
  by (simp add: error_messages_def)

lemma error_messages_views: "error_messages (map (\<lambda>i. View fn (g i)) ids) = []"
  by (induction ids) (simp_all add: error_messages_def)

lemma error_messages_detail_errors:
  "error_messages (concat (map (case_sum (\<lambda>err. [ConsoleError m]) (\<lambda>d. []) \<circ> g) ids)) = []"
  by (induction ids) (simp_all add: error_messages_def split: sum.splits)

text \<open>
  Claim C3, as stated, on the collection page, in the environment \<open>ex_env_partial\<close>:
  the read of the id list answers the ids 5 and 6, the read of the details of
  NFT 6 fails. The snapshot of the two NFTs is replaced by a snapshot of NFT 5
  alone, and the failure is written to the console only: no error message is
  shown.
\<close>

theorem detail_read_failure_counterexample:
  "get_nft_details ex_env_partial [Str marketplaceAddr, Raw 6] = Inl (Error ''network'') \<and>
   my_nfts ex_my_pair = [ex_my_nft, ex_my_nft6] \<and>
   my_nfts (fst (fetchUserNFTs ex_env_partial ex_my_pair)) = [ex_my_nft] \<and>
   snd (fetchUserNFTs ex_env_partial ex_my_pair) =
     [ConsoleLog ''Fetching NFT IDs for owner:'',
      View (marketplaceAddr @ ''::NFTMarketplace::get_all_nfts_for_owner'')
        [Str marketplaceAddr, Str ''0xalice'', Str ''100'', Str ''0''],
      ConsoleLog ''Fetching details for each NFT ID:'',
      View (marketplaceAddr @ ''::NFTMarketplace::get_nft_details'') [Str marketplaceAddr, Raw 5],
      View (marketplaceAddr @ ''::NFTMarketplace::get_nft_details'') [Str marketplaceAddr, Raw 6],
      ConsoleError ''Error fetching details for NFT ID'',
      ConsoleLog ''User NFTs:'']"
  by code_simp

text \<open>
  Claim C3, amended: when the read of the auctions, of the marketplace NFTs or of
  the id list of the owned NFTs fails, and on the fusion page also when the read
  of the details of one id fails, the snapshot is the one held before (the only
  field that changes is the loading flag, which is reset) and one error message
  is shown. On the collection page the read of the details of an id is best
  effort: when the id list is read, the new snapshot holds the NFTs whose details
  were read, in the order of the ids, and no error message is shown.
\<close>

theorem read_failure_keeps_snapshot:
  "(get_all_auctions e = Inl err \<longrightarrow>
      fst (fetchAuctions e s) = s\<lparr>av_isLoading := False\<rparr> \<and>
      av_auctions (fst (fetchAuctions e s)) = av_auctions s \<and>
      error_messages (snd (fetchAuctions e s)) = [''Failed to fetch auctions.'']) \<and>
   (getAccountResource e (mv_marketplaceAddr m) (mv_marketplaceAddr m @ ''::NFTMarketplace::Marketplace'') = Inl err \<longrightarrow>
      fst (fetchNfts e m) = m\<lparr>mv_isLoading := False\<rparr> \<and>
      mv_nfts (fst (fetchNfts e m)) = mv_nfts m \<and>
      mv_filteredNfts (fst (fetchNfts e m)) = mv_filteredNfts m \<and>
      error_messages (snd (fetchNfts e m)) = [''Failed to fetch NFTs.'']) \<and>
   (my_account y = Some acc \<and> get_all_nfts_for_owner e (ownerIdsArgs marketplaceAddr acc) = Inl err \<longrightarrow>
      fst (fetchUserNFTs e y) = y\<lparr>my_isLoading := False\<rparr> \<and>
      my_nfts (fst (fetchUserNFTs e y)) = my_nfts y \<and>
      error_messages (snd (fetchUserNFTs e y)) = [''Failed to fetch your NFTs.'']) \<and>
   (fu_account f = Some acc \<and>
    (get_all_nfts_for_owner e (ownerIdsArgs (fu_marketplaceAddr f) acc) = Inl err \<or>
     (\<exists>resp i. get_all_nfts_for_owner e (ownerIdsArgs (fu_marketplaceAddr f) acc) = Inr resp \<and>
         i \<in> set (nftIds_of resp) \<and>
         get_nft_details e [Str (fu_marketplaceAddr f), Raw i] = Inl err)) \<longrightarrow>
      fst (fetchUserNFTs_fusion e f) = f\<lparr>fu_isLoading := False\<rparr> \<and>
      fu_userNFTs (fst (fetchUserNFTs_fusion e f)) = fu_userNFTs f \<and>
      error_messages (snd (fetchUserNFTs_fusion e f)) = [''Failed to fetch your NFTs.'']) \<and>
   (my_account y = Some acc \<and> get_all_nfts_for_owner e (ownerIdsArgs marketplaceAddr acc) = Inr resp \<longrightarrow>
      my_nfts (fst (fetchUserNFTs e y)) =
        concat (map (\<lambda>i. case get_nft_details e [Str marketplaceAddr, Raw i] of
                             Inl err \<Rightarrow> []
                           | Inr d \<Rightarrow> [decodeMyNft e d]) (nftIds_of resp)) \<and>
      error_messages (snd (fetchUserNFTs e y)) = [])"
proof (intro conjI impI)
  assume "get_all_auctions e = Inl err"
  then show "fst (fetchAuctions e s) = s\<lparr>av_isLoading := False\<rparr>"
    and "av_auctions (fst (fetchAuctions e s)) = av_auctions s"
    and "error_messages (snd (fetchAuctions e s)) = [''Failed to fetch auctions.'']"
    by (simp_all add: fetchAuctions_def error_messages_def)
next
  assume "getAccountResource e (mv_marketplaceAddr m) (mv_marketplaceAddr m @ ''::NFTMarketplace::Marketplace'') = Inl err"
  then show "fst (fetchNfts e m) = m\<lparr>mv_isLoading := False\<rparr>"
    and "mv_nfts (fst (fetchNfts e m)) = mv_nfts m"
    and "mv_filteredNfts (fst (fetchNfts e m)) = mv_filteredNfts m"
    and "error_messages (snd (fetchNfts e m)) = [''Failed to fetch NFTs.'']"
    by (simp_all add: fetchNfts_def error_messages_def)
next
  assume "my_account y = Some acc \<and> get_all_nfts_for_owner e (ownerIdsArgs marketplaceAddr acc) = Inl err"
  then show "fst (fetchUserNFTs e y) = y\<lparr>my_isLoading := False\<rparr>"
    and "my_nfts (fst (fetchUserNFTs e y)) = my_nfts y"
    and "error_messages (snd (fetchUserNFTs e y)) = [''Failed to fetch your NFTs.'']"
    by (simp_all add: fetchUserNFTs_def error_messages_def)
next
  assume h: "fu_account f = Some acc \<and>
    (get_all_nfts_for_owner e (ownerIdsArgs (fu_marketplaceAddr f) acc) = Inl err \<or>
     (\<exists>resp i. get_all_nfts_for_owner e (ownerIdsArgs (fu_marketplaceAddr f) acc) = Inr resp \<and>
         i \<in> set (nftIds_of resp) \<and>
         get_nft_details e [Str (fu_marketplaceAddr f), Raw i] = Inl err))"
  have r: "fst (fetchUserNFTs_fusion e f) = f\<lparr>fu_isLoading := False\<rparr> \<and>
     error_messages (snd (fetchUserNFTs_fusion e f)) = [''Failed to fetch your NFTs.'']"
  proof (cases "get_all_nfts_for_owner e (ownerIdsArgs (fu_marketplaceAddr f) acc)")
    case (Inl x)
    with h show ?thesis by (simp add: fetchUserNFTs_fusion_def error_messages_def)
  next
    case (Inr resp)
    with h obtain i where i: "i \<in> set (nftIds_of resp)"
      and d: "get_nft_details e [Str (fu_marketplaceAddr f), Raw i] = Inl err"
      by auto
    have "Inl err \<in> set (map (\<lambda>i. get_nft_details e [Str (fu_marketplaceAddr f), Raw i]) (nftIds_of resp))"
      using i d by force
    then obtain err' where
      "promiseAll (map (\<lambda>i. get_nft_details e [Str (fu_marketplaceAddr f), Raw i]) (nftIds_of resp)) = Inl err'"
      using promiseAll_rejects by blast
    with h Inr show ?thesis
      by (simp add: fetchUserNFTs_fusion_def Let_def error_messages_Cons error_messages_append
          error_messages_views error_messages_Nil)
  qed
  from r show "fst (fetchUserNFTs_fusion e f) = f\<lparr>fu_isLoading := False\<rparr>"
    by (rule conjunct1)
  then show "fu_userNFTs (fst (fetchUserNFTs_fusion e f)) = fu_userNFTs f"
    by simp
  from r show "error_messages (snd (fetchUserNFTs_fusion e f)) = [''Failed to fetch your NFTs.'']"
    by (rule conjunct2)
next
  assume h: "my_account y = Some acc \<and> get_all_nfts_for_owner e (ownerIdsArgs marketplaceAddr acc) = Inr resp"
  then show "my_nfts (fst (fetchUserNFTs e y)) =
        concat (map (\<lambda>i. case get_nft_details e [Str marketplaceAddr, Raw i] of
                             Inl err \<Rightarrow> []
                           | Inr d \<Rightarrow> [decodeMyNft e d]) (nftIds_of resp))"
    by (simp add: fetchUserNFTs_def Let_def comp_def)
  from h show "error_messages (snd (fetchUserNFTs e y)) = []"
    by (simp add: fetchUserNFTs_def Let_def error_messages_Cons error_messages_append
        error_messages_views error_messages_detail_errors error_messages_Nil)
qed

theorem read_failure_keeps_snapshot_witness:
  "get_all_auctions ex_env_down = Inl (Error ''network'') \<and>
   av_auctions (fst (fetchAuctions ex_env_down ex_auction_view)) = [ex_auction] \<and>
   error_messages (snd (fetchAuctions ex_env_down ex_auction_view)) = [''Failed to fetch auctions.''] \<and>
   mv_nfts (fst (fetchNfts ex_env_down ex_market_view)) = [ex_nft1, ex_nft2] \<and>
   error_messages (snd (fetchNfts ex_env_down ex_market_view)) = [''Failed to fetch NFTs.''] \<and>
   my_nfts (fst (fetchUserNFTs ex_env_down ex_my_view)) = [ex_my_nft] \<and>
   error_messages (snd (fetchUserNFTs ex_env_down ex_my_view)) = [''Failed to fetch your NFTs.''] \<and>
   fu_userNFTs (fst (fetchUserNFTs_fusion ex_env_down ex_fusion_view)) = [ex_fnft5, ex_fnft6, ex_fnft7] \<and>
   error_messages (snd (fetchUserNFTs_fusion ex_env_down ex_fusion_view)) = [''Failed to fetch your NFTs.''] \<and>
   get_all_nfts_for_owner ex_env_partial (ownerIdsArgs marketplaceAddr ''0xalice'') = Inr (Nested [5, 6]) \<and>
   error_messages (snd (fetchUserNFTs ex_env_partial ex_my_pair)) = []"
proof -
  have a: "my_account ex_my_pair = Some ''0xalice'' \<and>
      get_all_nfts_for_owner ex_env_partial (ownerIdsArgs marketplaceAddr ''0xalice'') = Inr (Nested [5, 6])"
    by (simp add: ex_my_pair_def ex_my_view_def ex_env_partial_def)
  note p = read_failure_keeps_snapshot
      [where e = ex_env_partial and y = ex_my_pair and acc = "''0xalice''" and resp = "Nested [5, 6]",
       THEN conjunct2, THEN conjunct2, THEN conjunct2, THEN conjunct2, THEN mp, OF a, THEN conjunct2]
  have d: "get_all_auctions ex_env_down = Inl (Error ''network'') \<and>
   av_auctions (fst (fetchAuctions ex_env_down ex_auction_view)) = [ex_auction] \<and>
   error_messages (snd (fetchAuctions ex_env_down ex_auction_view)) = [''Failed to fetch auctions.''] \<and>
   mv_nfts (fst (fetchNfts ex_env_down ex_market_view)) = [ex_nft1, ex_nft2] \<and>
   error_messages (snd (fetchNfts ex_env_down ex_market_view)) = [''Failed to fetch NFTs.''] \<and>
   my_nfts (fst (fetchUserNFTs ex_env_down ex_my_view)) = [ex_my_nft] \<and>
   error_messages (snd (fetchUserNFTs ex_env_down ex_my_view)) = [''Failed to fetch your NFTs.''] \<and>
   fu_userNFTs (fst (fetchUserNFTs_fusion ex_env_down ex_fusion_view)) = [ex_fnft5, ex_fnft6, ex_fnft7] \<and>
   error_messages (snd (fetchUserNFTs_fusion ex_env_down ex_fusion_view)) = [''Failed to fetch your NFTs.'']"
    using read_failure_keeps_snapshot [of ex_env_down "Error ''network''" ex_auction_view ex_market_view
      ex_my_view "''0xalice''" ex_fusion_view]
    by (simp add: ex_env_down_def ex_auction_view_def ex_market_view_def ex_my_view_def ex_fusion_view_def)
  from d a p show ?thesis by simp
qed

section \<open>The query scenario (MarketView)\<close>

text \<open>
  Claim C4: the snapshot of the scenario, whatever the other fields of its two
  NFTs and the rest of the component state, under the filter rarity 1, the
  initial price range, no date range, no search term and the sort key
  \<open>price_asc\<close>: page 1 of size 8 is the NFT with id 2 alone, and the total handed
  to the pagination control is 1, the length of the filtered list.
\<close>

theorem scenario_filter_sort_page:
  "(let n1 = \<lparr> nft_id = 1, owner = o1, name = m1, description = d1, uri = u1,
                price = 5, for_sale = f1, rarity = 2, listed_at = t1 \<rparr>;
        n2 = \<lparr> nft_id = 2, owner = o2, name = m2, description = d2, uri = u2,
                price = 3, for_sale = f2, rarity = 1, listed_at = t2 \<rparr>;
        s = applyFilters (m\<lparr>mv_nfts := [n1, n2], mv_rarity := Rarity 1, mv_priceRange := (0, 1000),
                             mv_dateRange := (None, None), mv_searchTerm := '''',
                             mv_sortBy := ''price_asc''\<rparr>)
    in pageSize = 8 \<and> mv_currentPage s = 1 \<and> paginatedNfts s = [n2] \<and> paginationTotal s = 1
       \<and> length (mv_nfts s) = 2)"
  by (simp add: applyFilters_def filterNfts_def sortNfts_def js_sort_def paginatedNfts_def
      paginationTotal_def slice_def pageSize_def Let_def)

theorem scenario_filter_sort_page_witness:
  "(let s = applyFilters (ex_market_view\<lparr>mv_rarity := Rarity 1\<rparr>)
    in paginatedNfts s = [ex_nft2] \<and> paginationTotal s = 1 \<and> length (mv_nfts s) = 2)"
  using scenario_filter_sort_page [of "''0xseller''" "''Fox''" "''A fox''" "''ipfs://fox''" True
      1700000000000 "''0xseller''" "''Owl''" "''An owl''" "''ipfs://owl''" True 1700000000000
      "ex_market_view\<lparr>mv_rarity := Rarity 1\<rparr>"]
  by (simp add: ex_market_view_def ex_nft1_def ex_nft2_def Let_def)

section \<open>The fusion selection (NFTFusion)\<close>

lemma list_ex_ids: "list_ex (\<lambda>selected. fn_id selected = k) sel \<longleftrightarrow> k \<in> set (map fn_id sel)"
  by (induction sel) auto

lemma filter_ids_distinct:
  "distinct (map fn_id sel) \<Longrightarrow> distinct (map fn_id (filter (\<lambda>selected. fn_id selected \<noteq> k) sel))"
  by (induction sel) auto

lemma filter_ids_removed: "k \<notin> set (map fn_id (filter (\<lambda>selected. fn_id selected \<noteq> k) sel))"
  by (induction sel) auto

text \<open>
  Claim C10: a selection of at most two NFTs with pairwise distinct ids stays one
  under every click on an NFT card. A click on an NFT whose id is selected removes
  the NFTs of that id; a click on an NFT that is not selected while two are
  selected changes nothing and shows a warning; otherwise the NFT is appended. The
  selection starts empty, and no other handler writes it.
\<close>

theorem selection_invariant:
  assumes "selection_ok (fu_selectedNFTs s)"
  shows "selection_ok (fu_selectedNFTs (fst (handleNFTSelect n s))) \<and>
         (fn_id n \<in> set (map fn_id (fu_selectedNFTs s)) \<longrightarrow>
            fu_selectedNFTs (fst (handleNFTSelect n s)) =
              filter (\<lambda>selected. fn_id selected \<noteq> fn_id n) (fu_selectedNFTs s) \<and>
            fn_id n \<notin> set (map fn_id (fu_selectedNFTs (fst (handleNFTSelect n s))))) \<and>
         (fn_id n \<notin> set (map fn_id (fu_selectedNFTs s)) \<and> length (fu_selectedNFTs s) = 2 \<longrightarrow>
            handleNFTSelect n s = (s, [MessageWarning ''You can only select two NFTs for fusion.''])) \<and>
         (fn_id n \<notin> set (map fn_id (fu_selectedNFTs s)) \<and> length (fu_selectedNFTs s) < 2 \<longrightarrow>
            fu_selectedNFTs (fst (handleNFTSelect n s)) = fu_selectedNFTs s @ [n])"
proof -
  let ?sel = "fu_selectedNFTs s"
  from assms have len: "length ?sel \<le> 2" and dist: "distinct (map fn_id ?sel)"
    by (simp_all add: selection_ok_def)
  show ?thesis
  proof (cases "fn_id n \<in> set (map fn_id ?sel)")
    case True
    then have sel': "fu_selectedNFTs (fst (handleNFTSelect n s)) =
        filter (\<lambda>selected. fn_id selected \<noteq> fn_id n) ?sel"
      by (simp add: handleNFTSelect_def list_ex_ids)
    have "length (filter (\<lambda>selected. fn_id selected \<noteq> fn_id n) ?sel) \<le> 2"
      using len length_filter_le [of "\<lambda>selected. fn_id selected \<noteq> fn_id n" ?sel] by linarith
    with sel' True dist show ?thesis
      using filter_ids_distinct [of ?sel "fn_id n"] filter_ids_removed [of "fn_id n" ?sel]
      by (simp add: selection_ok_def)
  next
    case False
    show ?thesis
    proof (cases "length ?sel < 2")
      case True
      with False have "fu_selectedNFTs (fst (handleNFTSelect n s)) = ?sel @ [n]"
        by (simp add: handleNFTSelect_def list_ex_ids)
      with False True dist show ?thesis
        by (simp add: selection_ok_def)
    next
      case notless: False
      with False have "handleNFTSelect n s = (s, [MessageWarning ''You can only select two NFTs for fusion.''])"
        by (simp add: handleNFTSelect_def list_ex_ids)
      with False notless assms show ?thesis
        by simp
    qed
  qed
qed

theorem selection_invariant_witness:
  "selection_ok (fu_selectedNFTs ex_fusion_view) \<and>
   fu_selectedNFTs (fst (handleNFTSelect ex_fnft5 ex_fusion_view)) = [ex_fnft5] \<and>
   selection_ok (fu_selectedNFTs (fst (handleNFTSelect ex_fnft5 ex_fusion_view)))"
proof -
  have a: "selection_ok (fu_selectedNFTs ex_fusion_view)"
    by (simp add: selection_ok_def ex_fusion_view_def)
  have b: "fu_selectedNFTs (fst (handleNFTSelect ex_fnft5 ex_fusion_view)) = [ex_fnft5]"
    by (simp add: handleNFTSelect_def ex_fusion_view_def)
  from selection_invariant [OF a, of ex_fnft5]
  have c: "selection_ok (fu_selectedNFTs (fst (handleNFTSelect ex_fnft5 ex_fusion_view)))"
    by (rule conjunct1)
  from a b c show ?thesis
    by (intro conjI)
qed

section \<open>Fusion of equal ids (NFTFusion)\<close>

text \<open>
  Claim C6, as stated, on the attempt to fuse the NFT with id 5 with itself: from
  the empty selection the card of NFT 5 is clicked, which selects it, and clicked
  again, which removes it; then the fuse button is clicked. The second click changes
  the state, the fuse button is disabled, and the three clicks together show no
  message at all: no error about distinct inputs is raised.
\<close>

theorem fusion_same_nft_twice_counterexample:
  "(let r1 = handleNFTSelect ex_fnft5 ex_fusion_view;
        r2 = handleNFTSelect ex_fnft5 (fst r1);
        r3 = clickFuse ex_env (fst r2)
    in fu_selectedNFTs (fst r1) = [ex_fnft5] \<and>
       fu_selectedNFTs (fst r2) = [] \<and>
       fst r3 = ex_fusion_view \<and>
       snd r1 @ snd r2 @ snd r3 = [])"
  by (simp add: Let_def handleNFTSelect_def clickFuse_def fuseDisabled_def ex_fusion_view_def)

text \<open>
  Claim C6, amended: a fusion request with two equal ids cannot be formed
  through the selection. Starting from the empty selection, a click on an NFT
  and then a click on an NFT with the same id leaves the selection empty; the
  fuse button is then disabled and \<open>handleFusion\<close> refuses with "Please select
  exactly two NFTs for fusion.", without a call to the wallet and without a
  change of state. And whenever the selected ids are pairwise distinct, every
  payload that \<open>handleFusion\<close> hands to the wallet carries two different ids.
\<close>

theorem fusion_ids_distinct_by_selection:
  "(fu_selectedNFTs s = [] \<and> fn_id a = fn_id b \<longrightarrow>
      (let s2 = fst (handleNFTSelect b (fst (handleNFTSelect a s)))
       in fu_selectedNFTs s2 = [] \<and>
          clickFuse e s2 = (s2, []) \<and>
          handleFusion e s2 = (s2, [MessageError ''Please select exactly two NFTs for fusion.'']))) \<and>
   (distinct (map fn_id (fu_selectedNFTs s)) \<and> SignAndSubmit p \<in> set (snd (handleFusion e s)) \<longrightarrow>
      (\<exists>x y. arguments p = [Str (fu_marketplaceAddr s), NumStr x, NumStr y] \<and> x \<noteq> y))"
proof (intro conjI impI)
  assume h: "fu_selectedNFTs s = [] \<and> fn_id a = fn_id b"
  then have "fu_selectedNFTs (fst (handleNFTSelect b (fst (handleNFTSelect a s)))) = []"
    by (simp add: handleNFTSelect_def)
  then show "let s2 = fst (handleNFTSelect b (fst (handleNFTSelect a s)))
       in fu_selectedNFTs s2 = [] \<and>
          clickFuse e s2 = (s2, []) \<and>
          handleFusion e s2 = (s2, [MessageError ''Please select exactly two NFTs for fusion.''])"
    by (simp add: Let_def clickFuse_def fuseDisabled_def handleFusion_def)
next
  assume h: "distinct (map fn_id (fu_selectedNFTs s)) \<and> SignAndSubmit p \<in> set (snd (handleFusion e s))"
  show "\<exists>x y. arguments p = [Str (fu_marketplaceAddr s), NumStr x, NumStr y] \<and> x \<noteq> y"
  proof (cases "\<exists>x y. fu_selectedNFTs s = [x, y]")
    case True
    then obtain x y where xy: "fu_selectedNFTs s = [x, y]" by blast
    with h have ne: "fn_id x \<noteq> fn_id y" by simp
    have sub: "fu_selectedNFTs (fst (fetchUserNFTs_fusion e' s')) = fu_selectedNFTs s'" for e' s'
      by (simp add: fetchUserNFTs_fusion_def Let_def split: option.splits sum.splits)
    have nosub: "SignAndSubmit q \<notin> set (snd (fetchUserNFTs_fusion e' s'))" for q e' s'
      by (auto simp: fetchUserNFTs_fusion_def Let_def split: option.splits sum.splits)
    from h xy have "p = fusionPayload s x y"
      using nosub
      by (auto simp: handleFusion_def Let_def split: sum.splits option.splits)
    with ne show ?thesis
      by (simp add: fusionPayload_def)
  next
    case False
    then have "handleFusion e s = (s, [MessageError ''Please select exactly two NFTs for fusion.''])"
      by (auto simp: handleFusion_def split: list.splits)
    with h show ?thesis by simp
  qed
qed

theorem fusion_ids_distinct_by_selection_witness:
  "fu_selectedNFTs ex_fusion_view = [] \<and> fn_id ex_fnft5 = fn_id ex_fnft5 \<and>
   (let s2 = fst (handleNFTSelect ex_fnft5 (fst (handleNFTSelect ex_fnft5 ex_fusion_view)))
    in fu_selectedNFTs s2 = [] \<and>
       clickFuse ex_env s2 = (s2, []) \<and>
       handleFusion ex_env s2 = (s2, [MessageError ''Please select exactly two NFTs for fusion.''])) \<and>
   distinct (map fn_id [ex_fnft5, ex_fnft6]) \<and>
   SignAndSubmit (fusionPayload ex_fusion_view ex_fnft5 ex_fnft6)
     \<in> set (snd (handleFusion ex_env (ex_fusion_view\<lparr>fu_selectedNFTs := [ex_fnft5, ex_fnft6]\<rparr>))) \<and>
   (\<exists>x y. arguments (fusionPayload ex_fusion_view ex_fnft5 ex_fnft6) = [Str ''0xmarket'', NumStr x, NumStr y]
          \<and> x \<noteq> y)"
proof -
  have a: "fu_selectedNFTs ex_fusion_view = [] \<and> fn_id ex_fnft5 = fn_id ex_fnft5"
    by (simp add: ex_fusion_view_def)
  have b: "distinct (map fn_id [ex_fnft5, ex_fnft6])"
    by (simp add: ex_fnft5_def ex_fnft6_def)
  have c: "SignAndSubmit (fusionPayload ex_fusion_view ex_fnft5 ex_fnft6)
     \<in> set (snd (handleFusion ex_env (ex_fusion_view\<lparr>fu_selectedNFTs := [ex_fnft5, ex_fnft6]\<rparr>)))"
    by (simp add: handleFusion_def ex_env_def fusionPayload_def ex_fusion_view_def)
  from a fusion_ids_distinct_by_selection
         [of ex_fusion_view ex_fnft5 ex_fnft5 ex_env]
  have d: "let s2 = fst (handleNFTSelect ex_fnft5 (fst (handleNFTSelect ex_fnft5 ex_fusion_view)))
    in fu_selectedNFTs s2 = [] \<and>
       clickFuse ex_env s2 = (s2, []) \<and>
       handleFusion ex_env s2 = (s2, [MessageError ''Please select exactly two NFTs for fusion.''])"
    by blast
  from b c fusion_ids_distinct_by_selection
         [of "ex_fusion_view\<lparr>fu_selectedNFTs := [ex_fnft5, ex_fnft6]\<rparr>" ex_fnft5 ex_fnft5
             ex_env "fusionPayload ex_fusion_view ex_fnft5 ex_fnft6"]
  have f: "\<exists>x y. arguments (fusionPayload ex_fusion_view ex_fnft5 ex_fnft6) = [Str ''0xmarket'', NumStr x, NumStr y]
          \<and> x \<noteq> y"
    by (simp add: ex_fusion_view_def)
  from a b c d f show ?thesis
    by (intro conjI) simp_all
qed

section \<open>The page of owned NFTs (MyNFTs, NFTFusion)\<close>

lemma views_of_append: "views_of fn (xs @ ys) = views_of fn xs @ views_of fn ys"
  by (simp add: views_of_def)

lemma views_of_Cons: "views_of fn (x # xs) = view_args fn x @ views_of fn xs"
  by (simp add: views_of_def)

lemma views_of_Nil: "views_of fn [] = []"
  by (simp add: views_of_def)

lemma views_of_calls_same:
  "views_of fn (map (\<lambda>i. View fn (g i)) ids) = map g ids"
  by (induction ids) (simp_all add: views_of_def)

lemma views_of_calls_other:
  "fn' \<noteq> fn \<Longrightarrow> views_of fn (map (\<lambda>i. View fn' (g i)) ids) = []"
  by (induction ids) (simp_all add: views_of_def)

lemma views_of_detail_errors:
  "views_of fn (concat (map (case_sum (\<lambda>err. [ConsoleError m]) (\<lambda>d. []) \<circ> g) ids)) = []"
  by (induction ids) (simp_all add: views_of_def split: sum.splits)

lemma length_fetched_details:
  "length (concat (map (\<lambda>r. case r of Inl err \<Rightarrow> [] | Inr d \<Rightarrow> [g d]) rs)) \<le> length rs"
  by (induction rs) (simp_all split: sum.splits)

lemma promiseAll_length: "promiseAll rs = Inr xs \<Longrightarrow> length xs = length rs"
proof (induction rs arbitrary: xs)
  case Nil
  then show ?case by simp
next
  case (Cons r rs)
  then show ?case
    by (cases r) (auto split: sum.splits)
qed

lemma my_ids_requests:
  assumes "my_account y = Some acc"
  shows "views_of (marketplaceAddr @ ''::NFTMarketplace::get_all_nfts_for_owner'') (snd (fetchUserNFTs e y))
         = [[Str marketplaceAddr, Str acc, Str ''100'', Str ''0'']]"
  using assms
  by (simp add: fetchUserNFTs_def Let_def ownerIdsArgs_def views_of_append views_of_Cons views_of_Nil
      views_of_calls_other views_of_detail_errors split: sum.splits)

lemma my_detail_requests:
  assumes "my_account y = Some acc"
  shows "views_of (marketplaceAddr @ ''::NFTMarketplace::get_nft_details'') (snd (fetchUserNFTs e y))
         = (case get_all_nfts_for_owner e (ownerIdsArgs marketplaceAddr acc) of
              Inl err \<Rightarrow> []
            | Inr resp \<Rightarrow> map (\<lambda>i. [Str marketplaceAddr, Raw i]) (nftIds_of resp))"
  using assms
  by (simp add: fetchUserNFTs_def Let_def ownerIdsArgs_def views_of_append views_of_Cons views_of_Nil
      views_of_calls_same views_of_detail_errors split: sum.splits)

lemma my_snapshot_length:
  assumes "my_account y = Some acc"
    and "answers_at_most e (ownerIdsArgs marketplaceAddr acc) n"
    and "length (my_nfts y) \<le> n"
  shows "length (my_nfts (fst (fetchUserNFTs e y))) \<le> n"
proof (cases "get_all_nfts_for_owner e (ownerIdsArgs marketplaceAddr acc)")
  case (Inl err)
  with assms show ?thesis by (simp add: fetchUserNFTs_def)
next
  case (Inr resp)
  with assms(2) have n: "length (nftIds_of resp) \<le> n"
    by (simp add: answers_at_most_def)
  have "length (concat (map (\<lambda>r. case r of Inl err \<Rightarrow> [] | Inr d \<Rightarrow> [decodeMyNft e d])
          (map (\<lambda>i. get_nft_details e [Str marketplaceAddr, Raw i]) (nftIds_of resp)))) \<le> length (nftIds_of resp)"
    using length_fetched_details
      [of "decodeMyNft e" "map (\<lambda>i. get_nft_details e [Str marketplaceAddr, Raw i]) (nftIds_of resp)"]
    by simp
  with n Inr assms(1) show ?thesis
    by (simp add: fetchUserNFTs_def Let_def)
qed

lemma fusion_ids_requests:
  assumes "fu_account f = Some acc"
  shows "views_of (fu_marketplaceAddr f @ ''::NFTMarketplace::get_all_nfts_for_owner'')
           (snd (fetchUserNFTs_fusion e f))
         = [[Str (fu_marketplaceAddr f), Str acc, Str ''100'', Str ''0'']]"
  using assms
  by (simp add: fetchUserNFTs_fusion_def Let_def ownerIdsArgs_def views_of_append views_of_Cons views_of_Nil
      views_of_calls_other split: sum.splits)

lemma fusion_detail_requests:
  assumes "fu_account f = Some acc"
  shows "views_of (fu_marketplaceAddr f @ ''::NFTMarketplace::get_nft_details'')
           (snd (fetchUserNFTs_fusion e f))
         = (case get_all_nfts_for_owner e (ownerIdsArgs (fu_marketplaceAddr f) acc) of
              Inl err \<Rightarrow> []
            | Inr resp \<Rightarrow> map (\<lambda>i. [Str (fu_marketplaceAddr f), Raw i]) (nftIds_of resp))"
  using assms
  by (simp add: fetchUserNFTs_fusion_def Let_def ownerIdsArgs_def views_of_append views_of_Cons views_of_Nil
      views_of_calls_same split: sum.splits)

lemma fusion_snapshot_length:
  assumes "fu_account f = Some acc"
    and "answers_at_most e (ownerIdsArgs (fu_marketplaceAddr f) acc) n"
    and "length (fu_userNFTs f) \<le> n"
  shows "length (fu_userNFTs (fst (fetchUserNFTs_fusion e f))) \<le> n"
proof (cases "get_all_nfts_for_owner e (ownerIdsArgs (fu_marketplaceAddr f) acc)")
  case (Inl err)
  with assms show ?thesis by (simp add: fetchUserNFTs_fusion_def)
next
  case (Inr resp)
  with assms(2) have n: "length (nftIds_of resp) \<le> n"
    by (simp add: answers_at_most_def)
  show ?thesis
  proof (cases "promiseAll (map (\<lambda>i. get_nft_details e [Str (fu_marketplaceAddr f), Raw i]) (nftIds_of resp))")
    case (Inl err)
    with Inr assms show ?thesis by (simp add: fetchUserNFTs_fusion_def Let_def)
  next
    case ds: (Inr ds)
    then have "length ds = length (nftIds_of resp)"
      using promiseAll_length by fastforce
    with n ds Inr assms(1) show ?thesis
      by (simp add: fetchUserNFTs_fusion_def Let_def)
  qed
qed


text \<open>
  Claim C9, as stated, on a ledger whose view function answers all 150 ids of the
  owner to the request with limit \<open>"100"\<close> and offset \<open>"0"\<close>: the refresh sends that
  one request, and the snapshot holds 150 NFTs, on the collection page and on the
  fusion page. The client does not cut the answer to the limit it sends.
\<close>

theorem owned_snapshot_over_limit_counterexample:
  "views_of (marketplaceAddr @ ''::NFTMarketplace::get_all_nfts_for_owner'')
       (snd (fetchUserNFTs ex_env_unpaged ex_my_view))
     = [[Str marketplaceAddr, Str ''0xalice'', Str ''100'', Str ''0'']] \<and>
   length (my_nfts (fst (fetchUserNFTs ex_env_unpaged ex_my_view))) = 150 \<and>
   views_of (fu_marketplaceAddr ex_fusion_view @ ''::NFTMarketplace::get_all_nfts_for_owner'')
       (snd (fetchUserNFTs_fusion ex_env_unpaged ex_fusion_view))
     = [[Str ''0xmarket'', Str ''0xalice'', Str ''100'', Str ''0'']] \<and>
   length (fu_userNFTs (fst (fetchUserNFTs_fusion ex_env_unpaged ex_fusion_view))) = 150"
  by code_simp

text \<open>
  Claim C9, amended: a refresh of the owned NFTs, on the collection page and on
  the fusion page, sends one request for the id list, with limit \<open>"100"\<close> and
  offset \<open>"0"\<close>, and requests details for the ids of the answer only; no request
  for a further page is sent. The size of the snapshot is bounded by the answer,
  not by the client: when the ledger answers the request with at most \<open>n\<close> ids, a
  snapshot of at most \<open>n\<close> NFTs is followed by a snapshot of at most \<open>n\<close> NFTs. So
  with a ledger that honours the limit of 100 the snapshot holds at most 100 NFTs,
  however many the owner holds.
\<close>

theorem owned_refresh_single_page:
  "(my_account y = Some acc \<and>
    answers_at_most e (ownerIdsArgs marketplaceAddr acc) n \<and>
    length (my_nfts y) \<le> n \<longrightarrow>
      views_of (marketplaceAddr @ ''::NFTMarketplace::get_all_nfts_for_owner'') (snd (fetchUserNFTs e y))
        = [[Str marketplaceAddr, Str acc, Str ''100'', Str ''0'']] \<and>
      views_of (marketplaceAddr @ ''::NFTMarketplace::get_nft_details'') (snd (fetchUserNFTs e y))
        = (case get_all_nfts_for_owner e [Str marketplaceAddr, Str acc, Str ''100'', Str ''0''] of
             Inl err \<Rightarrow> []
           | Inr resp \<Rightarrow> map (\<lambda>i. [Str marketplaceAddr, Raw i]) (nftIds_of resp)) \<and>
      length (my_nfts (fst (fetchUserNFTs e y))) \<le> n) \<and>
   (fu_account f = Some acc' \<and>
    answers_at_most e (ownerIdsArgs (fu_marketplaceAddr f) acc') n \<and>
    length (fu_userNFTs f) \<le> n \<longrightarrow>
      views_of (fu_marketplaceAddr f @ ''::NFTMarketplace::get_all_nfts_for_owner'')
          (snd (fetchUserNFTs_fusion e f))
        = [[Str (fu_marketplaceAddr f), Str acc', Str ''100'', Str ''0'']] \<and>
      views_of (fu_marketplaceAddr f @ ''::NFTMarketplace::get_nft_details'')
          (snd (fetchUserNFTs_fusion e f))
        = (case get_all_nfts_for_owner e [Str (fu_marketplaceAddr f), Str acc', Str ''100'', Str ''0''] of
             Inl err \<Rightarrow> []
           | Inr resp \<Rightarrow> map (\<lambda>i. [Str (fu_marketplaceAddr f), Raw i]) (nftIds_of resp)) \<and>
      length (fu_userNFTs (fst (fetchUserNFTs_fusion e f))) \<le> n)"
proof (intro conjI impI)
  assume h: "my_account y = Some acc \<and>
    answers_at_most e (ownerIdsArgs marketplaceAddr acc) n \<and> length (my_nfts y) \<le> n"
  from h show "views_of (marketplaceAddr @ ''::NFTMarketplace::get_all_nfts_for_owner'') (snd (fetchUserNFTs e y))
        = [[Str marketplaceAddr, Str acc, Str ''100'', Str ''0'']]"
    by (simp add: my_ids_requests)
  from h show "views_of (marketplaceAddr @ ''::NFTMarketplace::get_nft_details'') (snd (fetchUserNFTs e y))
        = (case get_all_nfts_for_owner e [Str marketplaceAddr, Str acc, Str ''100'', Str ''0''] of
             Inl err \<Rightarrow> []
           | Inr resp \<Rightarrow> map (\<lambda>i. [Str marketplaceAddr, Raw i]) (nftIds_of resp))"
    using my_detail_requests [of y acc e] by (simp add: ownerIdsArgs_def)
  from h show "length (my_nfts (fst (fetchUserNFTs e y))) \<le> n"
    using my_snapshot_length [of y acc e n] by simp
next
  assume h: "fu_account f = Some acc' \<and>
    answers_at_most e (ownerIdsArgs (fu_marketplaceAddr f) acc') n \<and> length (fu_userNFTs f) \<le> n"
  from h show "views_of (fu_marketplaceAddr f @ ''::NFTMarketplace::get_all_nfts_for_owner'')
          (snd (fetchUserNFTs_fusion e f))
        = [[Str (fu_marketplaceAddr f), Str acc', Str ''100'', Str ''0'']]"
    by (simp add: fusion_ids_requests)
  from h show "views_of (fu_marketplaceAddr f @ ''::NFTMarketplace::get_nft_details'')
          (snd (fetchUserNFTs_fusion e f))
        = (case get_all_nfts_for_owner e [Str (fu_marketplaceAddr f), Str acc', Str ''100'', Str ''0''] of
             Inl err \<Rightarrow> []
           | Inr resp \<Rightarrow> map (\<lambda>i. [Str (fu_marketplaceAddr f), Raw i]) (nftIds_of resp))"
    using fusion_detail_requests [of f acc' e] by (simp add: ownerIdsArgs_def)
  from h show "length (fu_userNFTs (fst (fetchUserNFTs_fusion e f))) \<le> n"
    using fusion_snapshot_length [of f acc' e n] by simp
qed

lemma ex_owned_length: "length ex_owned = 150"
  by (simp add: ex_owned_def)

lemma ex_paged_my_answer: "answers_at_most ex_env_paged (ownerIdsArgs marketplaceAddr ''0xalice'') 100"
  by code_simp

lemma ex_paged_fusion_answer:
  "answers_at_most ex_env_paged (ownerIdsArgs (fu_marketplaceAddr ex_fusion_view) ''0xalice'') 100"
  by code_simp

lemma ex_paged_my_snapshot: "length (my_nfts (fst (fetchUserNFTs ex_env_paged ex_my_view))) = 100"
  by code_simp

lemma ex_paged_fusion_snapshot:
  "length (fu_userNFTs (fst (fetchUserNFTs_fusion ex_env_paged ex_fusion_view))) = 100"
  by code_simp

theorem owned_refresh_single_page_witness:
  "length ex_owned = 150 \<and>
   my_account ex_my_view = Some ''0xalice'' \<and>
   answers_at_most ex_env_paged (ownerIdsArgs marketplaceAddr ''0xalice'') 100 \<and>
   length (my_nfts ex_my_view) \<le> 100 \<and>
   views_of (marketplaceAddr @ ''::NFTMarketplace::get_all_nfts_for_owner'')
       (snd (fetchUserNFTs ex_env_paged ex_my_view))
     = [[Str marketplaceAddr, Str ''0xalice'', Str ''100'', Str ''0'']] \<and>
   length (my_nfts (fst (fetchUserNFTs ex_env_paged ex_my_view))) = 100 \<and>
   fu_account ex_fusion_view = Some ''0xalice'' \<and>
   answers_at_most ex_env_paged (ownerIdsArgs (fu_marketplaceAddr ex_fusion_view) ''0xalice'') 100 \<and>
   length (fu_userNFTs ex_fusion_view) \<le> 100 \<and>
   views_of (fu_marketplaceAddr ex_fusion_view @ ''::NFTMarketplace::get_all_nfts_for_owner'')
       (snd (fetchUserNFTs_fusion ex_env_paged ex_fusion_view))
     = [[Str (fu_marketplaceAddr ex_fusion_view), Str ''0xalice'', Str ''100'', Str ''0'']] \<and>
   length (fu_userNFTs (fst (fetchUserNFTs_fusion ex_env_paged ex_fusion_view))) = 100"
proof -
  have a: "my_account ex_my_view = Some ''0xalice''" and b: "length (my_nfts ex_my_view) \<le> 100"
    by (simp_all add: ex_my_view_def)
  have c: "fu_account ex_fusion_view = Some ''0xalice''" and d: "length (fu_userNFTs ex_fusion_view) \<le> 100"
    by (simp_all add: ex_fusion_view_def)
  note t = owned_refresh_single_page
             [where y = ex_my_view and acc = "''0xalice''" and e = ex_env_paged and n = 100
                and f = ex_fusion_view and acc' = "''0xalice''"]
  from t a b ex_paged_my_answer
  have m: "views_of (marketplaceAddr @ ''::NFTMarketplace::get_all_nfts_for_owner'')
       (snd (fetchUserNFTs ex_env_paged ex_my_view))
     = [[Str marketplaceAddr, Str ''0xalice'', Str ''100'', Str ''0'']]"
    by blast
  from t c d ex_paged_fusion_answer
  have f: "views_of (fu_marketplaceAddr ex_fusion_view @ ''::NFTMarketplace::get_all_nfts_for_owner'')
       (snd (fetchUserNFTs_fusion ex_env_paged ex_fusion_view))
     = [[Str (fu_marketplaceAddr ex_fusion_view), Str ''0xalice'', Str ''100'', Str ''0'']]"
    by blast
  from a b c d m f ex_owned_length ex_paged_my_answer ex_paged_fusion_answer
    ex_paged_my_snapshot ex_paged_fusion_snapshot
  show ?thesis
    by (intro conjI)
qed

section \<open>The sort of the query transformation (MarketView)\<close>

lemma insert_by_key:
  "insert_by (\<lambda>a b. subN (f a) (f b)) x ys = insort_key f x ys"
  by (induction ys) (simp_all add: subN_le_zero_iff)

lemma js_sort_key: "js_sort (\<lambda>a b. subN (f a) (f b)) xs = sort_key f xs"
  by (induction xs) (simp_all add: js_sort_def insert_by_key)

lemma insert_by_key_desc:
  "insert_by (\<lambda>a b. subN (f b) (f a)) x ys = insort_key (\<lambda>n. - f n) x ys"
  by (induction ys) (simp_all add: subN_le_zero_iff)

lemma js_sort_key_desc: "js_sort (\<lambda>a b. subN (f b) (f a)) xs = sort_key (\<lambda>n. - f n) xs"
  by (induction xs) (simp_all add: js_sort_def insert_by_key_desc)

lemma sortKey_fields:
  "sortKey ''price_asc'' = price" "sortKey ''price_desc'' = (\<lambda>n. - price n)"
  "sortKey ''date_asc'' = listed_at" "sortKey ''date_desc'' = (\<lambda>n. - listed_at n)"
  "sortKey ''rarity_asc'' = rarity" "sortKey ''rarity_desc'' = (\<lambda>n. - rarity n)"
  by (rule ext, simp add: sortKey_def)+

lemma sortNfts_cases:
  "sortNfts sortBy xs = sort_key (sortKey sortBy) xs \<or>
   (sortNfts sortBy xs = xs \<and> sortKey sortBy = (\<lambda>n. 0))"
proof (cases "sortBy = ''price_asc''")
  case True
  then show ?thesis by (simp add: sortNfts_def sortKey_fields js_sort_key)
next
  case c1: False
  show ?thesis
  proof (cases "sortBy = ''price_desc''")
    case True
    then show ?thesis by (simp add: sortNfts_def sortKey_fields js_sort_key_desc)
  next
    case c2: False
    show ?thesis
    proof (cases "sortBy = ''date_asc''")
      case True
      then show ?thesis by (simp add: sortNfts_def sortKey_fields js_sort_key)
    next
      case c3: False
      show ?thesis
      proof (cases "sortBy = ''date_desc''")
        case True
        then show ?thesis by (simp add: sortNfts_def sortKey_fields js_sort_key_desc)
      next
        case c4: False
        show ?thesis
        proof (cases "sortBy = ''rarity_asc''")
          case True
          then show ?thesis by (simp add: sortNfts_def sortKey_fields js_sort_key)
        next
          case c5: False
          show ?thesis
          proof (cases "sortBy = ''rarity_desc''")
            case True
            then show ?thesis by (simp add: sortNfts_def sortKey_fields js_sort_key_desc)
          next
            case c6: False
            from c1 c2 c3 c4 c5 c6 have "sortNfts sortBy xs = xs"
              by (simp add: sortNfts_def)
            moreover from c1 c2 c3 c4 c5 c6 have "sortKey sortBy = (\<lambda>n. 0)"
              by (intro ext) (simp add: sortKey_def)
            ultimately show ?thesis by simp
          qed
        qed
      qed
    qed
  qed
qed

lemma sorted_ids_filter:
  "sorted (map nft_id xs) \<Longrightarrow> sorted (map nft_id (filter P xs))"
  by (induction xs) auto

text \<open>
  Claim C7, as stated, on a snapshot that holds the NFT with id 2 before the NFT
  with id 1, both at the price 3: sorted by ascending price, the two keep the
  order of the snapshot, id 2 before id 1.
\<close>

theorem sort_ties_counterexample:
  "price ex_nft2 = price ex_nft3 \<and>
   map nft_id (mv_filteredNfts (applyFilters (ex_market_view\<lparr>mv_nfts := [ex_nft2, ex_nft3]\<rparr>))) = [2, 1]"
  by code_simp

text \<open>
  Claim C7, amended: for every snapshot and every value of the sort key, the sort
  of the query transformation is the stable sort by that key: the result is a
  permutation of its input, ordered by the key (the named field, negated for a
  descending order), and the entities that compare equal on the key keep the
  order they have in the snapshot, so the result is determined by the snapshot.
  Ties are in ascending order of the ids when the snapshot is.
\<close>

theorem sort_is_stable_by_key:
  "mset (sortNfts sortBy xs) = mset xs \<and>
   sorted (map (sortKey sortBy) (sortNfts sortBy xs)) \<and>
   filter (\<lambda>n. sortKey sortBy n = k) (sortNfts sortBy xs) = filter (\<lambda>n. sortKey sortBy n = k) xs \<and>
   (sorted (map nft_id xs) \<longrightarrow>
      sorted (map nft_id (filter (\<lambda>n. sortKey sortBy n = k) (sortNfts sortBy xs))))"
proof -
  from sortNfts_cases [of sortBy xs] show ?thesis
  proof
    assume s: "sortNfts sortBy xs = sort_key (sortKey sortBy) xs"
    have st: "filter (\<lambda>n. sortKey sortBy n = k) (sort_key (sortKey sortBy) xs)
        = filter (\<lambda>n. sortKey sortBy n = k) xs"
      by (rule sort_key_stable)
    show ?thesis
      by (simp add: s st sorted_ids_filter)
  next
    assume s: "sortNfts sortBy xs = xs \<and> sortKey sortBy = (\<lambda>n. 0)"
    have "sorted (map (\<lambda>n. 0::rat) xs)"
      by (induction xs) simp_all
    with s show ?thesis
      by (simp add: sorted_ids_filter)
  qed
qed

theorem sort_is_stable_by_key_witness:
  "sorted (map nft_id [ex_nft3, ex_nft2]) \<and>
   sortNfts ''price_desc'' [ex_nft3, ex_nft2] = [ex_nft3, ex_nft2] \<and>
   sorted (map nft_id (filter (\<lambda>n. sortKey ''price_desc'' n = - 3) (sortNfts ''price_desc'' [ex_nft3, ex_nft2])))"
proof -
  have a: "sorted (map nft_id [ex_nft3, ex_nft2])"
    by (simp add: ex_nft3_def ex_nft2_def ex_nft1_def)
  have b: "sortNfts ''price_desc'' [ex_nft3, ex_nft2] = [ex_nft3, ex_nft2]"
    by code_simp
  from sort_is_stable_by_key [of "''price_desc''" "[ex_nft3, ex_nft2]" "- 3"] a
  have "sorted (map nft_id (filter (\<lambda>n. sortKey ''price_desc'' n = - 3)
      (sortNfts ''price_desc'' [ex_nft3, ex_nft2])))"
    by blast
  with a b show ?thesis by simp
qed

section \<open>Amounts sent to the ledger\<close>




section \<open>The currency round trip\<close>

lemma p2_half: "(2::rat) powi (e - 53) * 2 powi (52 - e) = 1 / 2"
proof -
  have "(2::rat) powi (e - 53) * 2 powi (52 - e) = 2 powi (- 1)"
    by (simp only: p2_add [symmetric]) simp
  then show ?thesis by simp
qed

lemma p2_mult_eq: "a + b = c \<Longrightarrow> (2::rat) powi a * 2 powi b = 2 powi c"
  by (simp add: p2_add [symmetric])

lemma p2_div_eq: "a - b = c \<Longrightarrow> (2::rat) powi a / 2 powi b = 2 powi c"
  by (simp add: p2_diff [symmetric])

lemma p2_mult_one: "a + b = 0 \<Longrightarrow> (2::rat) powi a * 2 powi b = 1"
  using p2_mult_eq [of a b 0] by simp

lemma roundtrip_core:
  fixes r :: rat
  assumes r: "0 < r" and K: "r * 100000000 = of_nat (64 * N)" and N: "N < 2 ^ 53"
  shows "fl (fl (fl r * 100000000) / 100000000) = fl r"
proof -
  define E where "E = binexp r"
  define X where "X = round_half_even (r * 2 powi (52 - E))"
  define x where "x = fl r"
  have x: "x = of_int X * 2 powi (E - 52)"
    by (simp add: x_def X_def E_def fl_pos_eq [OF r])
  have Xlo: "2 ^ 52 \<le> X" and Xhi: "X \<le> 2 ^ 53"
    using mantissa_range [OF r] by (simp_all add: X_def E_def)
  have xpos: "0 < x" by (simp add: x_def fl_pos [OF r])
  show ?thesis
  proof (cases "X = 2 ^ 52 \<or> X = 2 ^ 53")
    case True
    then obtain j where j: "x = 2 powi j"
    proof
      assume "X = 2 ^ 52"
      then have "x = 2 powi 52 * 2 powi (E - 52)" by (simp add: x)
      also have "\<dots> = 2 powi E" by (rule p2_mult_eq) linarith
      finally show ?thesis by (rule that)
    next
      assume "X = 2 ^ 53"
      then have "x = 2 powi 53 * 2 powi (E - 52)" by (simp add: x)
      also have "\<dots> = 2 powi (E + 1)" by (rule p2_mult_eq) linarith
      finally show ?thesis by (rule that)
    qed
    have "fl (of_int 100000000 * 2 powi j) = of_int 100000000 * 2 powi j"
      by (rule fl_exact) simp_all
    then have "fl (x * 100000000) = x * 100000000"
      by (simp add: j mult.commute)
    then have "fl (fl (x * 100000000) / 100000000) = fl x" by simp
    then show ?thesis by (simp add: x_def fl_idem)
  next
    case False
    with Xlo Xhi have X1: "2 ^ 52 + 1 \<le> X" and X2: "X \<le> 2 ^ 53 - 1" by linarith+
    have xlo: "2 powi E + 2 powi (E - 52) \<le> x"
    proof -
      have "(of_int (2 ^ 52 + 1) :: rat) \<le> of_int X" using X1 by (simp only: of_int_le_iff)
      then have "(2 powi 52 + 1) * 2 powi (E - 52) \<le> of_int X * (2::rat) powi (E - 52)"
        by (intro mult_right_mono) simp_all
      moreover have "(2 powi 52 + 1) * (2::rat) powi (E - 52) = 2 powi E + 2 powi (E - 52)"
      proof -
        have "(2::rat) powi 52 * 2 powi (E - 52) = 2 powi E"
          by (rule p2_mult_eq) linarith
        then show ?thesis by (simp only: distrib_right mult_1)
      qed
      ultimately show ?thesis by (simp only: x)
    qed
    have xhi: "x \<le> 2 powi (E + 1) - 2 powi (E - 52)"
    proof -
      have "(of_int X :: rat) \<le> of_int (2 ^ 53 - 1)" using X2 by (simp only: of_int_le_iff)
      then have "of_int X * (2::rat) powi (E - 52) \<le> (2 powi 53 - 1) * 2 powi (E - 52)"
        by (intro mult_right_mono) simp_all
      moreover have "(2 powi 53 - 1) * (2::rat) powi (E - 52) = 2 powi (E + 1) - 2 powi (E - 52)"
      proof -
        have "(2::rat) powi 53 * 2 powi (E - 52) = 2 powi (E + 1)"
          by (rule p2_mult_eq) linarith
        then show ?thesis by (simp only: left_diff_distrib mult_1)
      qed
      ultimately show ?thesis by (simp only: x)
    qed
    have small: "0 < (2::rat) powi (E - 52)" by simp
    have xE: "2 powi E \<le> x" and xE1: "x < 2 powi (E + 1)"
      using xlo xhi small by linarith+
    define t where "t = x * 100000000"
    have tpos: "0 < t" using xpos by (simp add: t_def)
    define Et where "Et = binexp t"
    have tlo: "2 powi Et \<le> t" and thi: "t < 2 powi (Et + 1)"
      using binexp_bounds [OF tpos] by (simp_all add: Et_def)
    have t26: "2 powi (E + 26) < t"
    proof -
      have "2 powi (E + 26) = 2 powi E * (2::rat) powi 26" by (rule p2_mult_eq [symmetric]) linarith
      also have "\<dots> \<le> x * 2 powi 26" using xE by (intro mult_right_mono) simp_all
      also have "\<dots> < x * 100000000" using xpos by (intro mult_strict_left_mono) simp_all
      finally show ?thesis by (simp add: t_def)
    qed
    have t28: "t < 2 powi (E + 28)"
    proof -
      have "t < 2 powi (E + 1) * 100000000" using xE1 by (simp add: t_def)
      also have "\<dots> < 2 powi (E + 1) * (2::rat) powi 27" by (intro mult_strict_left_mono) simp_all
      also have "\<dots> = 2 powi (E + 28)" by (rule p2_mult_eq) linarith
      finally show ?thesis .
    qed
    have "(2::rat) powi Et < 2 powi (E + 28)" using tlo t28 by linarith
    then have "Et < E + 28" by (rule p2_less_cancel)
    moreover have "(2::rat) powi (E + 26) < 2 powi (Et + 1)" using t26 thi by linarith
    then have "E + 26 < Et + 1" by (rule p2_less_cancel)
    ultimately have Et_cases: "Et = E + 26 \<or> Et = E + 27" by linarith
    have yerr: "\<bar>fl t - t\<bar> \<le> 2 powi (Et - 53)"
      using fl_error [OF tpos] by (simp add: Et_def)
    from Et_cases show ?thesis
    proof
      assume e26: "Et = E + 26"
      define w where "w = fl t / 100000000"
      have "\<bar>w - x\<bar> = \<bar>fl t - t\<bar> / 100000000"
      proof -
        have "x = t / 100000000" by (simp add: t_def)
        then have "w - x = (fl t - t) / 100000000"
          by (simp only: w_def diff_divide_distrib)
        then have "\<bar>w - x\<bar> = \<bar>(fl t - t) / 100000000\<bar>" by (simp only:)
        also have "\<dots> = \<bar>fl t - t\<bar> / \<bar>100000000\<bar>" by (rule abs_divide)
        also have "\<bar>100000000::rat\<bar> = 100000000" by simp
        finally show ?thesis .
      qed
      also have "\<dots> \<le> 2 powi (E - 27) / 100000000"
        using yerr e26 by (simp add: divide_right_mono)
      also have "\<dots> < 2 powi (E - 27) / 2 powi 26"
        by (intro divide_strict_left_mono) simp_all
      also have "\<dots> = 2 powi (E - 53)"
        by (rule p2_div_eq) linarith
      finally have d: "\<bar>w - x\<bar> < 2 powi (E - 53)" .
      have half: "(2::rat) powi (E - 53) < 2 powi (E - 52)" by (rule p2_strict_mono) simp
      have wlo: "2 powi E \<le> w" and whi: "w < 2 powi (E + 1)"
        using d xlo xhi half by linarith+
      have bw: "binexp w = E" using wlo whi by (rule binexp_eqI)
      have wpos: "0 < w" using wlo p2_pos [of E] by linarith
      have "\<bar>w * 2 powi (52 - E) - of_int X\<bar> = \<bar>w - x\<bar> * 2 powi (52 - E)"
      proof -
        have "(2::rat) powi (E - 52) * 2 powi (52 - E) = 1"
          by (rule p2_mult_one) linarith
        then have "x * 2 powi (52 - E) = of_int X" by (simp add: x)
        then have "w * 2 powi (52 - E) - of_int X = (w - x) * 2 powi (52 - E)"
          by (simp add: left_diff_distrib)
        then show ?thesis by (simp add: abs_mult)
      qed
      also have "\<dots> < 2 powi (E - 53) * 2 powi (52 - E)"
        using d by (intro mult_strict_right_mono) simp_all
      also have "\<dots> = 1 / 2" by (rule p2_half)
      finally have "fl w = of_int X * 2 powi (E - 52)"
        by (rule fl_eqI [OF wpos bw])
      then show ?thesis by (simp add: w_def t_def x x_def [symmetric])
    next
      assume e27: "Et = E + 27"
      have rerr: "\<bar>x - r\<bar> \<le> 2 powi (E - 53)"
        using fl_error [OF r] by (simp add: x_def E_def)
      have "\<bar>t - of_nat (64 * N)\<bar> = \<bar>x - r\<bar> * 100000000"
      proof -
        have "t - of_nat (64 * N) = (x - r) * 100000000"
          by (simp only: t_def K [symmetric] left_diff_distrib)
        then have "\<bar>t - of_nat (64 * N)\<bar> = \<bar>(x - r) * 100000000\<bar>" by (simp only:)
        also have "\<dots> = \<bar>x - r\<bar> * \<bar>100000000\<bar>" by (rule abs_mult)
        also have "\<bar>100000000::rat\<bar> = 100000000" by simp
        finally show ?thesis .
      qed
      also have "\<dots> \<le> 2 powi (E - 53) * 100000000"
        using rerr by (intro mult_right_mono) simp_all
      also have "\<dots> < 2 powi (E - 53) * 2 powi 27"
        by (intro mult_strict_left_mono) simp_all
      also have "\<dots> = 2 powi (Et - 53)"
        using e27 by (intro p2_mult_eq) linarith
      finally have tk: "\<bar>t - of_nat (64 * N)\<bar> < 2 powi (Et - 53)" .
      have Et58: "Et \<le> 58"
      proof (rule ccontr)
        assume "\<not> Et \<le> 58"
        then have big: "59 \<le> Et" by simp
        have "(64::rat) * (2 ^ 53 - 1) = 2 powi 6 * (2 powi 53 - 1)" by simp
        also have "\<dots> \<le> 2 powi (Et - 53) * (2 powi 53 - 1)"
          using big by (intro mult_right_mono p2_mono) simp_all
        also have "\<dots> = 2 powi Et - 2 powi (Et - 53)"
        proof -
          have "(2::rat) powi (Et - 53) * 2 powi 53 = 2 powi Et"
            by (rule p2_mult_eq) linarith
          then show ?thesis by (simp only: right_diff_distrib mult_1_right)
        qed
        also have "\<dots> \<le> t - 2 powi (Et - 53)" using tlo by simp
        also have "\<dots> < of_nat (64 * N)" using tk by linarith
        finally have "(64::rat) * (2 ^ 53 - 1) < of_nat (64 * N)" .
        then have "(of_nat (64 * (2 ^ 53 - 1)) :: rat) < of_nat (64 * N)" by simp
        then have "64 * (2 ^ 53 - 1) < 64 * N" by (simp only: of_nat_less_iff)
        with N show False by simp
      qed
      define i where "i = nat (58 - Et)"
      have M: "of_nat (64 * N) * 2 powi (52 - Et) = (of_int (int N * 2 ^ i) :: rat)"
      proof -
        have "(of_nat (64 * N) :: rat) * 2 powi (52 - Et) = of_nat N * (2 powi 6 * 2 powi (52 - Et))"
          by simp
        also have "(2::rat) powi 6 * 2 powi (52 - Et) = 2 powi (58 - Et)"
          by (rule p2_mult_eq) linarith
        also have "\<dots> = 2 ^ i"
          using Et58 by (simp add: i_def power_int_nonneg_exp)
        finally show ?thesis by simp
      qed
      have "\<bar>t * 2 powi (52 - Et) - of_int (int N * 2 ^ i)\<bar> = \<bar>t - of_nat (64 * N)\<bar> * 2 powi (52 - Et)"
      proof -
        have "t * 2 powi (52 - Et) - of_int (int N * 2 ^ i) = (t - of_nat (64 * N)) * 2 powi (52 - Et)"
          by (simp only: M [symmetric] left_diff_distrib)
        then show ?thesis by (simp add: abs_mult)
      qed
      also have "\<dots> < 2 powi (Et - 53) * 2 powi (52 - Et)"
        using tk by (intro mult_strict_right_mono) simp_all
      also have "\<dots> = 1 / 2" by (rule p2_half)
      finally have "fl t = of_int (int N * 2 ^ i) * 2 powi (Et - 52)"
        by (rule fl_eqI [OF tpos Et_def [symmetric]])
      also have "\<dots> = of_nat (64 * N) * (2 powi (52 - Et) * 2 powi (Et - 52))"
        by (simp only: M [symmetric] mult.assoc)
      also have "(2::rat) powi (52 - Et) * 2 powi (Et - 52) = 1"
        by (rule p2_mult_one) linarith
      finally have "fl t = r * 100000000" by (simp add: K)
      then have "fl t / 100000000 = r" by simp
      then show ?thesis by (simp add: t_def x_def)
    qed
  qed
qed

text \<open>
  Claim C8, as stated, at the amount 6000000000.09: the field value is read as
  the number nearest to it, the product with \<open>10\<^sup>8\<close> is rounded to
  600000000009000064, and the quotient of that by \<open>10\<^sup>8\<close> is rounded to the
  next number above the one that was read, \<open>2\<^sup>-\<^sup>2\<^sup>0\<close> away from it
  (6000000000.090001).
\<close>

theorem currency_roundtrip_counterexample:
  "parseFloat ''6000000000.09'' = Some (fl (600000000009 / 100)) \<and>
   mulN (fl (600000000009 / 100)) 100000000 = 600000000009000064 \<and>
   divN (mulN (fl (600000000009 / 100)) 100000000) 100000000 = fl (600000000009 / 100) + 1 / 2 ^ 20"
  by code_simp

text \<open>
  Claim C8, amended: for every non-negative decimal \<open>x = k / 100\<close> whose amount in
  minor units \<open>x * 10\<^sup>8\<close> is below \<open>2\<^sup>5\<^sup>9\<close> (that is, \<open>x\<close> up to 5764607523.03), the
  conversion to minor units as done at submission (the floating-point product
  with \<open>10\<^sup>8\<close>) followed by the conversion back as done at decode (the
  floating-point quotient by \<open>10\<^sup>8\<close>) yields exactly the number \<open>x\<close> is read as.
  So when an entered amount is read as that number, and the amount a bid
  submits for it is the current bid of a ledger record, the decoded auction
  shows the number again.
\<close>

theorem currency_roundtrip_two_decimals:
  fixes k :: nat
  assumes "k * 1000000 < 2 ^ 59"
  shows "divN (mulN (fl (of_nat k / 100)) 100000000) 100000000 = fl (of_nat k / 100) \<and>
         (parseFloat amount = Some (fl (of_nat k / 100)) \<and> toOctas amount = NumStr (ra_current_bid r) \<longrightarrow>
            currentBid (decodeAuction e r) = fl (of_nat k / 100))"
proof -
  have rt: "divN (mulN (fl (of_nat k / 100)) 100000000) 100000000 = fl (of_nat k / 100)"
  proof (cases "k = 0")
    case True
    then show ?thesis by (simp add: divN_def mulN_def)
  next
    case False
    then have r: "(0::rat) < of_nat k / 100" by simp
    have "64 * (k * 15625) < 64 * 2 ^ 53" using assms by simp
    then have N: "k * 15625 < 2 ^ 53" by simp
    have K: "(of_nat k / 100 :: rat) * 100000000 = of_nat (64 * (k * 15625))" by simp
    from roundtrip_core [OF r K N] show ?thesis
      by (simp only: divN_def mulN_def)
  qed
  have "currentBid (decodeAuction e r) = fl (of_nat k / 100)"
    if "parseFloat amount = Some (fl (of_nat k / 100)) \<and> toOctas amount = NumStr (ra_current_bid r)"
  proof -
    from that have p: "parseFloat amount = Some (fl (of_nat k / 100))"
      and o: "toOctas amount = NumStr (ra_current_bid r)"
      by simp_all
    from o have "ra_current_bid r = mulN (fl (of_nat k / 100)) 100000000"
      by (simp add: toOctas_def p)
    with rt show ?thesis by (simp add: decodeAuction_def)
  qed
  with rt show ?thesis by blast
qed

theorem currency_roundtrip_two_decimals_witness:
  "(7::nat) * 1000000 < 2 ^ 59 \<and>
   parseFloat ''0.07'' = Some (fl (of_nat 7 / 100)) \<and>
   toOctas ''0.07'' = NumStr (ra_current_bid ex_raw_auction) \<and>
   mulN (fl (of_nat 7 / 100)) 100000000 = 7000000 + 1 / 2 ^ 30 \<and>
   divN (mulN (fl (of_nat 7 / 100)) 100000000) 100000000 = fl (of_nat 7 / 100) \<and>
   currentBid (decodeAuction ex_env ex_raw_auction) = fl (of_nat 7 / 100)"
proof -
  have a: "(7::nat) * 1000000 < 2 ^ 59" by simp
  have b: "parseFloat ''0.07'' = Some (fl (of_nat 7 / 100))" by code_simp
  have c: "mulN (fl (of_nat 7 / 100)) 100000000 = 7000000 + 1 / 2 ^ 30" by code_simp
  have d: "toOctas ''0.07'' = NumStr (ra_current_bid ex_raw_auction)"
    using b c by (simp add: toOctas_def ex_raw_auction_def)
  note t = currency_roundtrip_two_decimals [OF a, of "''0.07''" ex_raw_auction ex_env]
  from t have f: "divN (mulN (fl (of_nat 7 / 100)) 100000000) 100000000 = fl (of_nat 7 / 100)"
    by (rule conjunct1)
  from t [THEN conjunct2, THEN mp, OF conjI [OF b d]]
  have g: "currentBid (decodeAuction ex_env ex_raw_auction) = fl (of_nat 7 / 100)" .
  from a b c d f g show ?thesis
    by (intro conjI)
qed

end
